theory Spec2Isabelle
  imports Complex_Main "HOL-Library.Word" "HOL-Library.Signed_Division"
begin

section \<open>The example tuner plugin of NCCL: data model\<close>

text \<open>
  The development embeds \<^verbatim>\<open>src/ext-tuner/example/nccl/tuner.h\<close> and
  \<^verbatim>\<open>src/ext-tuner/example/plugin.c\<close>.

  Conventions of the embedding:
  \<^item> A C \<^verbatim>\<open>int\<close> that takes part in arithmetic (rank and node counts, the channel
    count, the pipeline depth) is a \<open>32 word\<close>, read with \<open>sint\<close>; \<open>+\<close>, \<open>-\<close> and \<open>*\<close>
    wrap around, which is what two's-complement targets do where ISO C leaves signed
    overflow undefined. \<^verbatim>\<open>long\<close> and \<^verbatim>\<open>size_t\<close> are \<open>64 word\<close> (LP64).
  \<^item> A C \<^verbatim>\<open>int\<close> that is only compared and used as an index or a flag (algorithm and
    protocol identifiers, loop counters bounded by 6 and 3, the two capability flags) is
    an \<open>int\<close>.
  \<^item> A C \<^verbatim>\<open>float\<close> is a \<open>real\<close>. In the cost function rounding is not modelled: every
    floating-point operation is taken as exact and the decimal literals of the tables
    denote themselves, so a cost of the model and the binary32 cost of the program differ
    by rounding. The real numbers have no infinity and no NaN; the one operation that
    could produce them, a division by zero, is a fault of the model.
  \<^item> The search of \<^verbatim>\<open>pluginGetCollInfo\<close> compares costs, and rounding decides which of
    two nearly equal costs is the smaller. The search is therefore modelled for an
    arbitrary cost function, given as an argument, and not for the exact one only.
  \<^item> Behaviour that C leaves undefined or that does not return (an out-of-range table
    read, an integer division that traps, a loop that runs forever) is a value of
    type \<open>fault\<close>.
  \<^item> Output parameters passed by pointer are a record that the function takes and
    returns; a field the function does not write keeps the caller's value.
\<close>

type_synonym cint = "32 word"
type_synonym clong = "64 word"
type_synonym size_t = "64 word"

datatype fault = ArrayOutOfBounds | IntDivTrap | FloatDivByZero | NonTermination

text \<open>\<^verbatim>\<open>ncclResult_t\<close> comes from \<^verbatim>\<open>nccl.h\<close>; the plugin uses these two values.\<close>

datatype ncclResult_t = ncclSuccess | ncclInternalError

text \<open>
  The collectives of \<^verbatim>\<open>ncclFunc_t\<close>. The cost function distinguishes
  \<^verbatim>\<open>ncclFuncAllReduce\<close> only; every other value takes the default branch.
\<close>

datatype ncclFunc_t =
    ncclFuncBroadcast | ncclFuncReduce | ncclFuncAllGather | ncclFuncReduceScatter
  | ncclFuncAllReduce | ncclFuncSendRecv | ncclFuncSend | ncclFuncRecv | ncclNumFuncs

abbreviation (input) NCCL_NUM_ALGORITHMS :: int where "NCCL_NUM_ALGORITHMS \<equiv> 6"
abbreviation (input) NCCL_ALGO_TREE :: int where "NCCL_ALGO_TREE \<equiv> 0"
abbreviation (input) NCCL_ALGO_RING :: int where "NCCL_ALGO_RING \<equiv> 1"
abbreviation (input) NCCL_ALGO_COLLNET_DIRECT :: int where "NCCL_ALGO_COLLNET_DIRECT \<equiv> 2"
abbreviation (input) NCCL_ALGO_COLLNET_CHAIN :: int where "NCCL_ALGO_COLLNET_CHAIN \<equiv> 3"
abbreviation (input) NCCL_ALGO_NVLS :: int where "NCCL_ALGO_NVLS \<equiv> 4"
abbreviation (input) NCCL_ALGO_NVLS_TREE :: int where "NCCL_ALGO_NVLS_TREE \<equiv> 5"

abbreviation (input) NCCL_NUM_PROTOCOLS :: int where "NCCL_NUM_PROTOCOLS \<equiv> 3"
abbreviation (input) NCCL_PROTO_LL :: int where "NCCL_PROTO_LL \<equiv> 0"
abbreviation (input) NCCL_PROTO_LL128 :: int where "NCCL_PROTO_LL128 \<equiv> 1"
abbreviation (input) NCCL_PROTO_SIMPLE :: int where "NCCL_PROTO_SIMPLE \<equiv> 2"

text \<open>The two latency tables, rows indexed by algorithm and columns by protocol.\<close>

definition nccl_base_lat :: "real list list" where
  "nccl_base_lat =
    [[6.8, 14.0, 0  ],
     [6.6, 14.0, 8.4],
     [0,   0,    0  ],
     [0,   0,    0  ],
     [0,   0,    0  ],
     [0,   0,    0  ]]"

definition nccl_nvlink_lat :: "real list list" where
  "nccl_nvlink_lat =
    [[0.6, 1.25, 28 ],
     [0.6, 1.9,  3.4],
     [0,   0,    3.7],
     [0,   0,    2.8],
     [0,   0,    25 ],
     [0,   0,    25 ]]"

text \<open>A read \<^verbatim>\<open>t[algo][proto]\<close>; outside the declared bounds C gives it no meaning.\<close>

definition table_read :: "real list list \<Rightarrow> int \<Rightarrow> int \<Rightarrow> fault + real" where
  "table_read t algo proto =
     (if 0 \<le> algo \<and> algo < NCCL_NUM_ALGORITHMS \<and> 0 \<le> proto \<and> proto < NCCL_NUM_PROTOCOLS
      then Inr (t ! nat algo ! nat proto)
      else Inl ArrayOutOfBounds)"

definition NCCL_TUNER_NET_LAT :: real where
  "NCCL_TUNER_NET_LAT = 3"

definition NCCL_TUNER_NET_NUM_CHANNELS :: cint where
  "NCCL_TUNER_NET_NUM_CHANNELS = 16"

definition NCCL_TUNER_INTERNODE_BW :: real where
  "NCCL_TUNER_INTERNODE_BW = 50.0 * 1024 * 1024 * 1024 * (1 / 1000000)"

definition NCCL_TUNER_INTRANODE_BW :: real where
  "NCCL_TUNER_INTRANODE_BW = 20.0 * 1024 * 1024 * 1024 * (1 / 1000000)"

text \<open>\<^verbatim>\<open>FLT_MAX\<close> of \<^verbatim>\<open>float.h\<close> for IEEE binary32: \<open>(2 - 2\<^sup>-\<^sup>2\<^sup>3) \<times> 2\<^sup>1\<^sup>2\<^sup>7\<close>.\<close>

definition FLT_MAX :: real where
  "FLT_MAX = (2 ^ 24 - 1) * 2 ^ 104"

record nccl_tuner_model_params =
  net_lat :: real
  internode_bw :: real
  intranode_bw :: real
  num_channels :: cint

record nccl_tuner_model_dims =
  num_ranks :: cint
  num_nodes :: cint

text \<open>The three output parameters of \<^verbatim>\<open>getCollInfo\<close>, as the pointed-to values.\<close>

record coll_info =
  algorithm :: int
  protocol :: int
  nChannels :: int

section \<open>The cost function\<close>

text \<open>
  \<^verbatim>\<open>log2i\<close>: \<^verbatim>\<open>while (n >>= 1) l++;\<close> on a \<^verbatim>\<open>long\<close>. The shift of a signed value is
  arithmetic, so a negative \<open>n\<close> never reaches 0 and the loop does not end: the result
  is \<open>None\<close> then.
\<close>

partial_function (option) log2i_loop :: "clong \<Rightarrow> clong \<Rightarrow> clong option" where
  "log2i_loop n l =
     (let n' = signed_drop_bit 1 n
      in if n' \<noteq> 0 then log2i_loop n' (l + 1) else Some l)"

definition log2i :: "clong \<Rightarrow> clong option" where
  "log2i n = log2i_loop n 0"

text \<open>
  Integer division of two \<^verbatim>\<open>int\<close>s: truncation towards zero; a zero divisor and
  \<^verbatim>\<open>INT_MIN / -1\<close> trap.
\<close>

definition c_int_div :: "cint \<Rightarrow> cint \<Rightarrow> fault + cint" where
  "c_int_div a b =
     (if b = 0 \<or> (a = - (2 ^ 31) \<and> b = - 1) then Inl IntDivTrap
      else Inr (word_of_int (sint a sdiv sint b)))"

text \<open>
  The \<^verbatim>\<open>switch (func)\<close> of \<^verbatim>\<open>nccl_tuner_compute_cost\<close> (lines 164 to 194). It takes the
  three latencies read before it and gives the updated \<open>latency\<close> and \<open>bw\<close>, or \<open>None\<close>
  where the source leaves the function with \<^verbatim>\<open>return -1\<close>. The \<^verbatim>\<open>printf\<close> of the
  inner default branch is an effect on the standard output only and is left out.
\<close>

definition cost_switch ::
  "nccl_tuner_model_params \<Rightarrow> nccl_tuner_model_dims \<Rightarrow> ncclFunc_t \<Rightarrow> int \<Rightarrow>
   real \<Rightarrow> real \<Rightarrow> real \<Rightarrow> fault + (real \<times> real) option" where
  "cost_switch params dims func algo latency intraLat interLat =
     (case func of
        ncclFuncAllReduce \<Rightarrow>
          (if algo = NCCL_ALGO_RING then
             (let num_steps = 2 * (num_ranks dims - 1);
                  num_internode_steps = 2 * num_nodes dims;
                  num_intranode_steps = num_steps - num_internode_steps
              in Inr (Some
                   (latency + (real_of_int (sint num_internode_steps) * interLat
                               + real_of_int (sint num_intranode_steps) * intraLat),
                    internode_bw params * real_of_int (sint (num_channels params)))))
           else if algo = NCCL_ALGO_TREE then
             (case c_int_div (num_ranks dims) (num_nodes dims) of
                Inl e \<Rightarrow> Inl e
              | Inr q \<Rightarrow>
                  (case log2i (scast (num_nodes dims)) of
                     None \<Rightarrow> Inl NonTermination
                   | Some l \<Rightarrow>
                       Inr (Some
                         (latency + 2 * (real_of_int (sint (q - 1)) * intraLat
                                         + real_of_int (sint l) * interLat),
                          internode_bw params * real_of_int (sint (num_channels params)) / 2))))
           else if algo = NCCL_ALGO_NVLS_TREE then
             (case log2i (scast (num_nodes dims)) of
                None \<Rightarrow> Inl NonTermination
              | Some l \<Rightarrow>
                  Inr (Some
                    (latency + (intraLat + real_of_int (sint (2 * l)) * interLat),
                     internode_bw params * real_of_int (sint (num_channels params)) / 2)))
           else Inr None)
      | _ \<Rightarrow> Inr None)"

text \<open>The protocol penalty of lines 196 to 202.\<close>

definition proto_penalty :: "int \<Rightarrow> real \<Rightarrow> real" where
  "proto_penalty proto bw =
     (if proto = NCCL_PROTO_LL then bw * 0.5
      else if proto = NCCL_PROTO_LL128 then bw * 0.9375
      else bw)"

definition nccl_tuner_compute_cost ::
  "nccl_tuner_model_params \<Rightarrow> nccl_tuner_model_dims \<Rightarrow> ncclFunc_t \<Rightarrow> int \<Rightarrow> int \<Rightarrow>
   cint \<Rightarrow> size_t \<Rightarrow> fault + real" where
  "nccl_tuner_compute_cost params dims func algo proto pipe_ops sz =
     (case table_read nccl_base_lat algo proto of
        Inl e \<Rightarrow> Inl e
      | Inr latency \<Rightarrow>
     (case table_read nccl_nvlink_lat algo proto of
        Inl e \<Rightarrow> Inl e
      | Inr intraLat \<Rightarrow>
     (let interLat = net_lat params in
      case cost_switch params dims func algo latency intraLat interLat of
        Inl e \<Rightarrow> Inl e
      | Inr None \<Rightarrow> Inr (- 1)
      | Inr (Some (latency', bw)) \<Rightarrow>
          (let bw' = proto_penalty proto bw
           in if bw' = 0 then Inl FloatDivByZero
              else Inr (latency' * real_of_int (sint pipe_ops) + real (unat sz) / bw')))))"

section \<open>The plugin\<close>

record nccl_tuner_context =
  dims :: nccl_tuner_model_dims
  params :: nccl_tuner_model_params

text \<open>
  \<^verbatim>\<open>pluginInit\<close>. \<open>init_params\<close> is the local constant \<^verbatim>\<open>params\<close> of lines 14 to 19;
  \<open>init_context\<close> is the context after the assignments of lines 26 to 28, which keep the
  low 32 bits of the \<^verbatim>\<open>size_t\<close> arguments in the \<^verbatim>\<open>int\<close> fields. Whether \<^verbatim>\<open>calloc\<close>
  succeeds is an input. The logging callback is not used by the source.
\<close>

definition init_params :: nccl_tuner_model_params where
  "init_params =
     \<lparr>net_lat = NCCL_TUNER_NET_LAT,
      internode_bw = NCCL_TUNER_INTERNODE_BW,
      intranode_bw = NCCL_TUNER_INTRANODE_BW,
      num_channels = NCCL_TUNER_NET_NUM_CHANNELS\<rparr>"

definition init_context :: "size_t \<Rightarrow> size_t \<Rightarrow> nccl_tuner_context" where
  "init_context nRanks nNodes =
     \<lparr>dims = \<lparr>num_ranks = ucast nRanks, num_nodes = ucast nNodes\<rparr>,
      params = init_params\<rparr>"

definition pluginInit :: "bool \<Rightarrow> size_t \<Rightarrow> size_t \<Rightarrow> ncclResult_t \<times> nccl_tuner_context option" where
  "pluginInit calloc_ok nRanks nNodes =
     (if \<not> calloc_ok then (ncclInternalError, None)
      else (ncclSuccess, Some (init_context nRanks nNodes)))"

text \<open>
  The state of the search in \<^verbatim>\<open>pluginGetCollInfo\<close>: the output parameters and the
  local \<^verbatim>\<open>lowest\<close>.
\<close>

type_synonym search = "coll_info \<times> real"

text \<open>
  The search compares the \<^verbatim>\<open>float\<close> values that the calls of
  \<^verbatim>\<open>nccl_tuner_compute_cost\<close> return, with \<^verbatim>\<open>0\<close> and with the incumbent \<^verbatim>\<open>lowest\<close>, which
  is \<^verbatim>\<open>FLT_MAX\<close> or a value returned before. Which pair wins depends on these values
  exactly: two costs that differ as real numbers can be the same \<^verbatim>\<open>float\<close>. The model of
  the search therefore does not fix the values. It takes the cost function as its first
  argument \<open>cost_fn\<close>, with the signature of \<^verbatim>\<open>nccl_tuner_compute_cost\<close>, and compares
  what \<open>cost_fn\<close> returns; a finite \<^verbatim>\<open>float\<close> is a real number and is compared as one
  (a result that is not a finite number has no counterpart here but a fault).
  The function of the program, with its binary32 results, is one \<open>cost_fn\<close>; the
  exact function \<open>nccl_tuner_compute_cost\<close> of the previous section is another, equal
  to it up to rounding. What is proved of the search for every \<open>cost_fn\<close> holds of the
  values the program compares.
\<close>

type_synonym cost_function =
  "nccl_tuner_model_params \<Rightarrow> nccl_tuner_model_dims \<Rightarrow> ncclFunc_t \<Rightarrow> int \<Rightarrow> int \<Rightarrow>
   cint \<Rightarrow> size_t \<Rightarrow> fault + real"

text \<open>Lines 62 to 71: the cost of one pair and the update of the incumbent.\<close>

definition try_pair ::
  "cost_function \<Rightarrow> nccl_tuner_context \<Rightarrow> ncclFunc_t \<Rightarrow> size_t \<Rightarrow> cint \<Rightarrow> int \<Rightarrow> int \<Rightarrow> search \<Rightarrow> fault + search" where
  "try_pair cost_fn ctx collType nBytes numPipeOps algo proto st =
     (case cost_fn (params ctx) (dims ctx) collType algo proto numPipeOps nBytes of
        Inl e \<Rightarrow> Inl e
      | Inr cost \<Rightarrow>
          if cost < 0 then Inr st
          else if cost < snd st
            then Inr ((fst st)\<lparr>algorithm := algo, protocol := proto\<rparr>, cost)
            else Inr st)"

text \<open>The inner loop over the protocols (lines 57 to 72).\<close>

function proto_loop ::
  "cost_function \<Rightarrow> nccl_tuner_context \<Rightarrow> ncclFunc_t \<Rightarrow> size_t \<Rightarrow> cint \<Rightarrow> int \<Rightarrow> int \<Rightarrow> search \<Rightarrow> fault + search" where
  "proto_loop cost_fn ctx collType nBytes numPipeOps algo proto st =
     (if proto < NCCL_NUM_PROTOCOLS then
        if algo = NCCL_ALGO_NVLS_TREE \<and> proto \<noteq> NCCL_PROTO_SIMPLE
        then proto_loop cost_fn ctx collType nBytes numPipeOps algo (proto + 1) st
        else (case try_pair cost_fn ctx collType nBytes numPipeOps algo proto st of
                Inl e \<Rightarrow> Inl e
              | Inr st' \<Rightarrow> proto_loop cost_fn ctx collType nBytes numPipeOps algo (proto + 1) st')
      else Inr st)"
  by pat_completeness auto
termination
  by (relation "measure (\<lambda>(cost_fn, ctx, collType, nBytes, numPipeOps, algo, proto, st). nat (3 - proto))") auto

text \<open>The outer loop over the algorithms (lines 46 to 73).\<close>

function algo_loop ::
  "cost_function \<Rightarrow> nccl_tuner_context \<Rightarrow> ncclFunc_t \<Rightarrow> size_t \<Rightarrow> int \<Rightarrow> int \<Rightarrow> cint \<Rightarrow> int \<Rightarrow> search \<Rightarrow> fault + search" where
  "algo_loop cost_fn ctx collType nBytes collNetSupport nvlsSupport numPipeOps algo st =
     (if algo < NCCL_NUM_ALGORITHMS then
        if algo = NCCL_ALGO_NVLS
        then algo_loop cost_fn ctx collType nBytes collNetSupport nvlsSupport numPipeOps (algo + 1) st
        else if nvlsSupport = 0 \<and> algo = NCCL_ALGO_NVLS_TREE
        then algo_loop cost_fn ctx collType nBytes collNetSupport nvlsSupport numPipeOps (algo + 1) st
        else if collNetSupport = 0 \<and> (algo = NCCL_ALGO_COLLNET_DIRECT \<or> algo = NCCL_ALGO_COLLNET_CHAIN)
        then algo_loop cost_fn ctx collType nBytes collNetSupport nvlsSupport numPipeOps (algo + 1) st
        else (case proto_loop cost_fn ctx collType nBytes numPipeOps algo 0 st of
                Inl e \<Rightarrow> Inl e
              | Inr st' \<Rightarrow>
                  algo_loop cost_fn ctx collType nBytes collNetSupport nvlsSupport numPipeOps (algo + 1) st')
      else Inr st)"
  by pat_completeness auto
termination
  by (relation "measure (\<lambda>(cost_fn, ctx, collType, nBytes, collNetSupport, nvlsSupport, numPipeOps, algo, st).
        nat (6 - algo))") auto

definition pluginGetCollInfo ::
  "cost_function \<Rightarrow> nccl_tuner_context \<Rightarrow> ncclFunc_t \<Rightarrow> size_t \<Rightarrow> int \<Rightarrow> int \<Rightarrow> cint \<Rightarrow> coll_info \<Rightarrow>
   fault + (ncclResult_t \<times> coll_info)" where
  "pluginGetCollInfo cost_fn ctx collType nBytes collNetSupport nvlsSupport numPipeOps out =
     (if sint (num_nodes (dims ctx)) \<le> 2 then Inr (ncclSuccess, out)
      else (case algo_loop cost_fn ctx collType nBytes collNetSupport nvlsSupport numPipeOps 0 (out, FLT_MAX) of
              Inl e \<Rightarrow> Inl e
            | Inr st \<Rightarrow> Inr (ncclSuccess, fst st)))"

section \<open>The pairs the search visits\<close>

text \<open>
  The admissibility rules of the two loops, collected from their \<^verbatim>\<open>continue\<close>
  guards: the NVLS algorithm is always skipped, NVLS-tree needs \<open>nvlsSupport\<close> and is
  paired with the Simple protocol only, the two CollNet algorithms need
  \<open>collNetSupport\<close>.
\<close>

definition admissible :: "int \<Rightarrow> int \<Rightarrow> int \<times> int \<Rightarrow> bool" where
  "admissible collNetSupport nvlsSupport x =
     (case x of (algo, proto) \<Rightarrow>
        algo \<noteq> NCCL_ALGO_NVLS
      \<and> (nvlsSupport \<noteq> 0 \<or> algo \<noteq> NCCL_ALGO_NVLS_TREE)
      \<and> (collNetSupport \<noteq> 0 \<or> (algo \<noteq> NCCL_ALGO_COLLNET_DIRECT \<and> algo \<noteq> NCCL_ALGO_COLLNET_CHAIN))
      \<and> (algo \<noteq> NCCL_ALGO_NVLS_TREE \<or> proto = NCCL_PROTO_SIMPLE))"

text \<open>All pairs in the order of the loops: algorithm outside, protocol inside.\<close>

definition all_pairs :: "(int \<times> int) list" where
  "all_pairs = concat (map (\<lambda>algo. map (\<lambda>proto. (algo, proto)) [0, 1, 2]) [0, 1, 2, 3, 4, 5])"

definition candidates :: "int \<Rightarrow> int \<Rightarrow> (int \<times> int) list" where
  "candidates collNetSupport nvlsSupport = filter (admissible collNetSupport nvlsSupport) all_pairs"

text \<open>\<open>try_pair\<close> along a list of pairs, stopping at a fault.\<close>

fun try_pairs ::
  "cost_function \<Rightarrow> nccl_tuner_context \<Rightarrow> ncclFunc_t \<Rightarrow> size_t \<Rightarrow> cint \<Rightarrow> (int \<times> int) list \<Rightarrow> search \<Rightarrow> fault + search" where
  "try_pairs cost_fn ctx collType nBytes numPipeOps [] st = Inr st"
| "try_pairs cost_fn ctx collType nBytes numPipeOps (x # xs) st =
     (case try_pair cost_fn ctx collType nBytes numPipeOps (fst x) (snd x) st of
        Inl e \<Rightarrow> Inl e
      | Inr st' \<Rightarrow> try_pairs cost_fn ctx collType nBytes numPipeOps xs st')"

text \<open>The cost of a pair as a number, where the cost function returns one.\<close>

definition pair_cost ::
  "nccl_tuner_context \<Rightarrow> ncclFunc_t \<Rightarrow> size_t \<Rightarrow> cint \<Rightarrow> int \<times> int \<Rightarrow> real" where
  "pair_cost ctx collType nBytes numPipeOps x =
     (case nccl_tuner_compute_cost (params ctx) (dims ctx) collType (fst x) (snd x) numPipeOps nBytes of
        Inl e \<Rightarrow> - 1
      | Inr cost \<Rightarrow> cost)"

section \<open>The closed forms of the specification\<close>

text \<open>
  The cost of a ring all-reduce in the words of the specification, over the integers:
  \<open>2 \<times> (rankCount - 1)\<close> steps in total, \<open>2 \<times> nodeCount\<close> of them at the inter-node
  latency and the rest at the intra-node latency; the bandwidth is the inter-node
  bandwidth times the channel count, before the protocol penalty.
\<close>

definition ring_allreduce_cost_spec ::
  "real \<Rightarrow> real \<Rightarrow> real \<Rightarrow> real \<Rightarrow> int \<Rightarrow> int \<Rightarrow> int \<Rightarrow> int \<Rightarrow> int \<Rightarrow> nat \<Rightarrow> real" where
  "ring_allreduce_cost_spec baseLatency interLatency intraLatency interBandwidth channelCount
       proto rankCount nodeCount pipelineDepth payloadBytes =
     (let totalSteps = 2 * (rankCount - 1);
          interSteps = 2 * nodeCount;
          intraSteps = totalSteps - interSteps;
          totalLatency = baseLatency
                         + (real_of_int interSteps * interLatency + real_of_int intraSteps * intraLatency);
          effectiveBandwidth = proto_penalty proto (interBandwidth * real_of_int channelCount)
      in totalLatency * real_of_int pipelineDepth + real payloadBytes / effectiveBandwidth)"

text \<open>
  The cost of a tree all-reduce in the words of the specification: the floor of the
  binary logarithm of the node count many inter-node hops and \<open>rankCount / nodeCount - 1\<close>
  intra-node hops, both paid twice; half the bandwidth of the ring.
\<close>

definition tree_allreduce_cost_spec ::
  "real \<Rightarrow> real \<Rightarrow> real \<Rightarrow> real \<Rightarrow> int \<Rightarrow> int \<Rightarrow> int \<Rightarrow> int \<Rightarrow> int \<Rightarrow> nat \<Rightarrow> real" where
  "tree_allreduce_cost_spec baseLatency interLatency intraLatency interBandwidth channelCount
       proto rankCount nodeCount pipelineDepth payloadBytes =
     (let interHops = \<lfloor>log 2 (real_of_int nodeCount)\<rfloor>;
          intraHops = rankCount div nodeCount - 1;
          totalLatency = baseLatency
                         + 2 * (real_of_int intraHops * intraLatency + real_of_int interHops * interLatency);
          ringBandwidth = interBandwidth * real_of_int channelCount;
          effectiveBandwidth = proto_penalty proto (ringBandwidth / 2)
      in totalLatency * real_of_int pipelineDepth + real payloadBytes / effectiveBandwidth)"

section \<open>The logarithm loop\<close>

declare proto_loop.simps [simp del] algo_loop.simps [simp del]
declare of_int_sint [simp del] of_nat_unat [simp del]

lemmas cost_defs =
  nccl_tuner_compute_cost_def table_read_def nccl_base_lat_def nccl_nvlink_lat_def
  cost_switch_def c_int_div_def proto_penalty_def signed_divide_int_def

lemmas init_defs =
  init_context_def init_params_def NCCL_TUNER_NET_LAT_def NCCL_TUNER_INTERNODE_BW_def
  NCCL_TUNER_NET_NUM_CHANNELS_def NCCL_TUNER_INTRANODE_BW_def

lemma sint_shift1: "sint (signed_drop_bit (Suc 0) (n::clong)) = sint n div 2"
  by (simp add: sint_signed_drop_bit_eq drop_bit_eq_div)

lemma shift1_zero_iff:
  assumes "0 \<le> sint (n::clong)"
  shows "signed_drop_bit (Suc 0) n = 0 \<longleftrightarrow> sint n < 2"
proof -
  have "signed_drop_bit (Suc 0) n = 0 \<longleftrightarrow> sint (signed_drop_bit (Suc 0) n) = 0"
    by (metis sint_0 signed_word_eqI)
  also have "\<dots> \<longleftrightarrow> sint n div 2 = 0" by (simp add: sint_shift1)
  also have "\<dots> \<longleftrightarrow> sint n < 2" using assms by auto
  finally show ?thesis .
qed

lemma floor_log2_int_div2:
  assumes "2 \<le> (k::int)"
  shows "\<lfloor>log 2 (real_of_int k)\<rfloor> = \<lfloor>log 2 (real_of_int (k div 2))\<rfloor> + 1"
proof -
  have "2 \<le> nat k" using assms by simp
  from floor_log2_div2 [OF this]
  have "\<lfloor>log 2 (real (nat k))\<rfloor> = \<lfloor>log 2 (real (nat k div 2))\<rfloor> + 1" .
  moreover have "real (nat k) = real_of_int k" using assms by simp
  moreover have "nat k div 2 = nat (k div 2)"
    by (simp add: nat_div_distrib)
  moreover have "real (nat (k div 2)) = real_of_int (k div 2)"
    using assms by simp
  ultimately show ?thesis by simp
qed

text \<open>On a positive argument the loop ends, with the floor of the binary logarithm.\<close>

lemma log2i_loop_pos:
  "0 < sint n \<Longrightarrow> log2i_loop n l = Some (l + word_of_int \<lfloor>log 2 (real_of_int (sint n))\<rfloor>)"
proof (induction "nat (sint n)" arbitrary: n l rule: less_induct)
  case less
  show ?case
  proof (cases "sint n < 2")
    case True
    with less.prems have one: "sint n = 1" by simp
    have z: "signed_drop_bit (Suc 0) n = 0"
      using shift1_zero_iff [of n] True less.prems by simp
    show ?thesis
      by (subst log2i_loop.simps) (simp add: z one)
  next
    case False
    let ?n' = "signed_drop_bit (Suc 0) n"
    have nz: "?n' \<noteq> 0" using shift1_zero_iff [of n] False less.prems by simp
    have s: "sint ?n' = sint n div 2" by (rule sint_shift1)
    have pos: "0 < sint ?n'" using False s by simp
    have dec: "nat (sint ?n') < nat (sint n)" using False s by simp
    have ih: "log2i_loop ?n' (l + 1) = Some (l + 1 + word_of_int \<lfloor>log 2 (real_of_int (sint ?n'))\<rfloor>)"
      by (rule less.hyps [OF dec pos])
    have fl: "\<lfloor>log 2 (real_of_int (sint n))\<rfloor> = \<lfloor>log 2 (real_of_int (sint n div 2))\<rfloor> + 1"
      using False by (intro floor_log2_int_div2) simp
    have "log2i_loop n l = log2i_loop ?n' (l + 1)"
      by (subst log2i_loop.simps) (simp add: nz Let_def)
    also have "\<dots> = Some (l + 1 + word_of_int \<lfloor>log 2 (real_of_int (sint n div 2))\<rfloor>)"
      by (simp only: ih s)
    also have "l + 1 + word_of_int \<lfloor>log 2 (real_of_int (sint n div 2))\<rfloor>
                = l + word_of_int (\<lfloor>log 2 (real_of_int (sint n div 2))\<rfloor> + 1)"
      by simp
    finally show ?thesis by (simp only: fl)
  qed
qed

lemma log2i_8: "log2i 8 = Some 3"
  by (simp add: log2i_def log2i_loop.simps)

text \<open>On a negative argument the loop does not end.\<close>

lemma log2i_loop_Some_nonneg:
  assumes a: "log2i_loop n l = Some y"
  shows "0 \<le> sint n"
proof (rule log2i_loop.raw_induct [where P = "\<lambda>n l y. 0 \<le> sint n", OF _ a])
  fix f and n l y :: clong
  assume ih: "\<And>n l y. f n l = Some y \<Longrightarrow> 0 \<le> sint n"
    and body: "(let n' = signed_drop_bit 1 n in if n' \<noteq> 0 then f n' (l + 1) else Some l) = Some y"
  show "0 \<le> sint n"
  proof (cases "signed_drop_bit (Suc 0) n = 0")
    case True
    then have "sint (signed_drop_bit (Suc 0) n) = 0" by simp
    then have "sint n div 2 = 0" by (simp add: sint_shift1)
    then show ?thesis by auto
  next
    case False
    with body have "f (signed_drop_bit (Suc 0) n) (l + 1) = Some y"
      by (simp add: Let_def)
    from ih [OF this] have "0 \<le> sint n div 2" by (simp add: sint_shift1)
    then show ?thesis by auto
  qed
qed

lemma log2i_negative: "sint n < 0 \<Longrightarrow> log2i n = None"
  using log2i_loop_Some_nonneg [of n 0] by (cases "log2i_loop n 0") (auto simp add: log2i_def)

lemma log2i_zero: "log2i 0 = Some 0"
  by (simp add: log2i_def log2i_loop.simps)

section \<open>The loops as one pass over the admissible pairs\<close>

lemma proto_loop_3: "proto_loop cost_fn ctx f sz pipe algo 3 st = Inr st"
  by (subst proto_loop.simps) simp

lemma proto_loop_all:
  "algo \<noteq> NCCL_ALGO_NVLS_TREE \<Longrightarrow>
   proto_loop cost_fn ctx f sz pipe algo 0 st = try_pairs cost_fn ctx f sz pipe [(algo, 0), (algo, 1), (algo, 2)] st"
  by (simp add: proto_loop.simps [of _ _ _ _ _ _ 0] proto_loop.simps [of _ _ _ _ _ _ 1]
        proto_loop.simps [of _ _ _ _ _ _ 2] proto_loop_3 split: sum.splits)

lemma proto_loop_nvls_tree:
  "proto_loop cost_fn ctx f sz pipe NCCL_ALGO_NVLS_TREE 0 st
     = try_pairs cost_fn ctx f sz pipe [(NCCL_ALGO_NVLS_TREE, 2)] st"
  by (simp add: proto_loop.simps [of _ _ _ _ _ _ 0] proto_loop.simps [of _ _ _ _ _ _ 1]
        proto_loop.simps [of _ _ _ _ _ _ 2] proto_loop_3 split: sum.splits)

lemma algo_loop_6: "algo_loop cost_fn ctx f sz cn nv pipe 6 st = Inr st"
  by (subst algo_loop.simps) simp

lemma algo_loop_unrolled:
  "algo_loop cost_fn ctx f sz cn nv pipe 0 st =
    (case try_pairs cost_fn ctx f sz pipe [(0, 0), (0, 1), (0, 2)] st of Inl e \<Rightarrow> Inl e | Inr s0 \<Rightarrow>
     (case try_pairs cost_fn ctx f sz pipe [(1, 0), (1, 1), (1, 2)] s0 of Inl e \<Rightarrow> Inl e | Inr s1 \<Rightarrow>
     (case (if cn = 0 then Inr s1 else try_pairs cost_fn ctx f sz pipe [(2, 0), (2, 1), (2, 2)] s1) of Inl e \<Rightarrow> Inl e | Inr s2 \<Rightarrow>
     (case (if cn = 0 then Inr s2 else try_pairs cost_fn ctx f sz pipe [(3, 0), (3, 1), (3, 2)] s2) of Inl e \<Rightarrow> Inl e | Inr s3 \<Rightarrow>
     (if nv = 0 then Inr s3 else try_pairs cost_fn ctx f sz pipe [(5, 2)] s3)))))"
  by (simp add: algo_loop.simps [of _ _ _ _ _ _ _ 0] algo_loop.simps [of _ _ _ _ _ _ _ 1]
        algo_loop.simps [of _ _ _ _ _ _ _ 2] algo_loop.simps [of _ _ _ _ _ _ _ 3]
        algo_loop.simps [of _ _ _ _ _ _ _ 4] algo_loop.simps [of _ _ _ _ _ _ _ 5] algo_loop_6
        proto_loop_all proto_loop_nvls_tree del: try_pairs.simps split: sum.splits)

lemma candidates_eq:
  "candidates cn nv =
     [(0, 0), (0, 1), (0, 2), (1, 0), (1, 1), (1, 2)]
     @ (if cn = 0 then [] else [(2, 0), (2, 1), (2, 2), (3, 0), (3, 1), (3, 2)])
     @ (if nv = 0 then [] else [(5, 2)])"
  by (simp add: candidates_def all_pairs_def admissible_def)

text \<open>The two loops visit exactly the admissible pairs, in the order of \<open>all_pairs\<close>.\<close>

lemma algo_loop_fold:
  "algo_loop cost_fn ctx f sz cn nv pipe 0 st = try_pairs cost_fn ctx f sz pipe (candidates cn nv) st"
  by (cases "cn = 0"; cases "nv = 0")
     (simp_all add: algo_loop_unrolled candidates_eq split: sum.splits)

section \<open>Selection of the minimum\<close>

lemma try_pair_pure:
  assumes "cost_fn (params ctx) (dims ctx) f (fst x) (snd x) pipe sz = Inr c"
  shows "try_pair cost_fn ctx f sz pipe (fst x) (snd x) (out, low) =
           Inr (if 0 \<le> c \<and> c < low then (out\<lparr>algorithm := fst x, protocol := snd x\<rparr>, c) else (out, low))"
  using assms by (simp add: try_pair_def)

lemma try_pairs_min:
  assumes "\<forall>x\<in>set xs. cost_fn (params ctx) (dims ctx) f (fst x) (snd x) pipe sz = Inr (c x)"
  shows "(try_pairs cost_fn ctx f sz pipe xs (out, low) = Inr (out, low) \<and> (\<forall>x\<in>set xs. \<not> (0 \<le> c x \<and> c x < low)))
       \<or> (\<exists>ys x zs. xs = ys @ x # zs \<and> 0 \<le> c x \<and> c x < low
             \<and> (\<forall>y\<in>set ys. 0 \<le> c y \<longrightarrow> c x < c y)
             \<and> (\<forall>z\<in>set zs. 0 \<le> c z \<longrightarrow> c x \<le> c z)
             \<and> try_pairs cost_fn ctx f sz pipe xs (out, low)
                 = Inr (out\<lparr>algorithm := fst x, protocol := snd x\<rparr>, c x))"
  using assms
proof (induction xs arbitrary: out low)
  case Nil
  then show ?case by simp
next
  case (Cons a rest)
  have ca: "cost_fn (params ctx) (dims ctx) f (fst a) (snd a) pipe sz = Inr (c a)"
    using Cons.prems by simp
  have rest: "\<forall>x\<in>set rest. cost_fn (params ctx) (dims ctx) f (fst x) (snd x) pipe sz = Inr (c x)"
    using Cons.prems by simp
  show ?case
  proof (cases "0 \<le> c a \<and> c a < low")
    case False
    have step: "try_pairs cost_fn ctx f sz pipe (a # rest) (out, low) = try_pairs cost_fn ctx f sz pipe rest (out, low)"
      using False by (auto simp add: try_pair_pure [where cost_fn = cost_fn and ctx = ctx and x = a, OF ca])
    from Cons.IH [OF rest, of out low] show ?thesis
    proof
      assume "try_pairs cost_fn ctx f sz pipe rest (out, low) = Inr (out, low) \<and> (\<forall>x\<in>set rest. \<not> (0 \<le> c x \<and> c x < low))"
      with False step show ?thesis by simp
    next
      assume "\<exists>ys x zs. rest = ys @ x # zs \<and> 0 \<le> c x \<and> c x < low
             \<and> (\<forall>y\<in>set ys. 0 \<le> c y \<longrightarrow> c x < c y)
             \<and> (\<forall>z\<in>set zs. 0 \<le> c z \<longrightarrow> c x \<le> c z)
             \<and> try_pairs cost_fn ctx f sz pipe rest (out, low)
                 = Inr (out\<lparr>algorithm := fst x, protocol := snd x\<rparr>, c x)"
      then obtain ys x zs where h: "rest = ys @ x # zs" "0 \<le> c x" "c x < low"
        "\<forall>y\<in>set ys. 0 \<le> c y \<longrightarrow> c x < c y" "\<forall>z\<in>set zs. 0 \<le> c z \<longrightarrow> c x \<le> c z"
        "try_pairs cost_fn ctx f sz pipe rest (out, low) = Inr (out\<lparr>algorithm := fst x, protocol := snd x\<rparr>, c x)"
        by blast
      have "a # rest = (a # ys) @ x # zs" using h(1) by simp
      moreover have "\<forall>y\<in>set (a # ys). 0 \<le> c y \<longrightarrow> c x < c y"
        using h(3,4) False by auto
      ultimately show ?thesis
        using h(2,3,5,6) step by metis
    qed
  next
    case True
    let ?o = "out\<lparr>algorithm := fst a, protocol := snd a\<rparr>"
    have step: "try_pairs cost_fn ctx f sz pipe (a # rest) (out, low) = try_pairs cost_fn ctx f sz pipe rest (?o, c a)"
      using True by (simp add: try_pair_pure [where cost_fn = cost_fn and ctx = ctx and x = a, OF ca])
    from Cons.IH [OF rest, of ?o "c a"] show ?thesis
    proof
      assume h: "try_pairs cost_fn ctx f sz pipe rest (?o, c a) = Inr (?o, c a) \<and> (\<forall>x\<in>set rest. \<not> (0 \<le> c x \<and> c x < c a))"
      have "a # rest = [] @ a # rest" by simp
      moreover have "\<forall>y\<in>set []. 0 \<le> c y \<longrightarrow> c a < c y" by simp
      moreover have "\<forall>z\<in>set rest. 0 \<le> c z \<longrightarrow> c a \<le> c z" using h by auto
      moreover have "try_pairs cost_fn ctx f sz pipe (a # rest) (out, low) = Inr (?o, c a)"
        using h step by simp
      ultimately show ?thesis using True by blast
    next
      assume "\<exists>ys x zs. rest = ys @ x # zs \<and> 0 \<le> c x \<and> c x < c a
             \<and> (\<forall>y\<in>set ys. 0 \<le> c y \<longrightarrow> c x < c y)
             \<and> (\<forall>z\<in>set zs. 0 \<le> c z \<longrightarrow> c x \<le> c z)
             \<and> try_pairs cost_fn ctx f sz pipe rest (?o, c a)
                 = Inr (?o\<lparr>algorithm := fst x, protocol := snd x\<rparr>, c x)"
      then obtain ys x zs where h: "rest = ys @ x # zs" "0 \<le> c x" "c x < c a"
        "\<forall>y\<in>set ys. 0 \<le> c y \<longrightarrow> c x < c y" "\<forall>z\<in>set zs. 0 \<le> c z \<longrightarrow> c x \<le> c z"
        "try_pairs cost_fn ctx f sz pipe rest (?o, c a) = Inr (?o\<lparr>algorithm := fst x, protocol := snd x\<rparr>, c x)"
        by blast
      have "a # rest = (a # ys) @ x # zs" using h(1) by simp
      moreover have "\<forall>y\<in>set (a # ys). 0 \<le> c y \<longrightarrow> c x < c y"
        using h(3,4) by auto
      moreover have "c x < low" using h(3) True by simp
      moreover have "try_pairs cost_fn ctx f sz pipe (a # rest) (out, low)
                       = Inr (out\<lparr>algorithm := fst x, protocol := snd x\<rparr>, c x)"
        using h(6) step by simp
      ultimately show ?thesis
        using h(2,5) by blast
    qed
  qed
qed

section \<open>Closed forms of the cost function\<close>

lemma sint32_ge: "- 2147483648 \<le> sint (w::cint)"
  using sint_ge [of w] by simp

lemma sint32_lt: "sint (w::cint) < 2147483648"
  using sint_lt [of w] by simp

lemma abs_sint32: "\<bar>real_of_int (sint (w::cint))\<bar> \<le> 2147483648"
proof -
  have "\<bar>sint w\<bar> \<le> 2147483648" using sint32_ge [of w] sint32_lt [of w] by simp
  then have "real_of_int \<bar>sint w\<bar> \<le> real_of_int 2147483648" by (rule of_int_le_iff [THEN iffD2])
  then show ?thesis by simp
qed

lemma stb31: "- 2147483648 \<le> k \<Longrightarrow> k < 2147483648 \<Longrightarrow> signed_take_bit 31 k = (k::int)"
  by (simp add: signed_take_bit_int_eq_self)

lemma sint32_diff: "- 2147483648 \<le> sint a - sint b \<Longrightarrow> sint a - sint b < 2147483648 \<Longrightarrow> sint (a - b :: cint) = sint a - sint b"
  by (simp add: sint_word_diff stb31)

lemma sint32_double: "- 1073741824 \<le> sint a \<Longrightarrow> sint a < 1073741824 \<Longrightarrow> sint (2 * a :: cint) = 2 * sint a"
  by (simp add: sint_word_mult stb31)

lemma sint32_pred: "- 2147483648 < sint a \<Longrightarrow> sint (a - 1 :: cint) = sint a - 1"
  using sint32_lt [of a] by (simp add: sint_word_diff stb31)

lemma unat64_lt: "real (unat (sz::size_t)) < 18446744073709551616"
proof -
  have "unat sz < 2 ^ 64" using unsigned_less [of sz, where 'a=nat] by simp
  then have "real (unat sz) < real (2 ^ 64)" by (rule of_nat_less_iff [THEN iffD2])
  then show ?thesis by simp
qed

lemma cost_ring:
  assumes "0 \<le> p" "p < 3"
  shows "nccl_tuner_compute_cost P D ncclFuncAllReduce NCCL_ALGO_RING p pipe sz =
    (if proto_penalty p (internode_bw P * real_of_int (sint (num_channels P))) = 0
     then Inl FloatDivByZero
     else Inr ((nccl_base_lat ! 1 ! nat p
                + (real_of_int (sint (2 * num_nodes D)) * net_lat P
                   + real_of_int (sint (2 * (num_ranks D - 1) - 2 * num_nodes D)) * (nccl_nvlink_lat ! 1 ! nat p)))
               * real_of_int (sint pipe)
               + real (unat sz) / proto_penalty p (internode_bw P * real_of_int (sint (num_channels P)))))"
  using assms by (simp add: nccl_tuner_compute_cost_def table_read_def cost_switch_def Let_def)

lemma sint_scast_nodes: "sint (scast (n::cint) :: clong) = sint n"
  by (simp add: sint_up_scast is_up)

lemma floor_log2_bounds:
  assumes "0 < sint (n::cint)"
  shows "0 \<le> \<lfloor>log 2 (real_of_int (sint n))\<rfloor>" and "\<lfloor>log 2 (real_of_int (sint n))\<rfloor> \<le> 30"
proof -
  let ?x = "real_of_int (sint n)"
  have x1: "1 \<le> ?x" using assms by simp
  then have "0 \<le> log 2 ?x" by simp
  then show "0 \<le> \<lfloor>log 2 ?x\<rfloor>" by simp
  have "nat (sint n) < 2 ^ 31" using sint32_lt [of n] assms by simp
  moreover have "0 < nat (sint n)" using assms by simp
  ultimately have "log 2 (real (nat (sint n))) < real 31" by (rule log2_of_power_less)
  moreover have "real (nat (sint n)) = ?x" using assms by simp
  ultimately have "log 2 ?x < 31" by simp
  then have "\<lfloor>log 2 ?x\<rfloor> < 31" by (simp add: floor_less_iff)
  then show "\<lfloor>log 2 ?x\<rfloor> \<le> 30" by simp
qed

lemma log2i_nodes:
  assumes "0 < sint (n::cint)"
  shows "log2i (scast n) = Some (word_of_int \<lfloor>log 2 (real_of_int (sint n))\<rfloor>)"
  using log2i_loop_pos [of "scast n :: clong" 0] assms
  by (simp add: log2i_def sint_scast_nodes)

lemma sint64_small: "0 \<le> k \<Longrightarrow> k \<le> 60 \<Longrightarrow> sint (word_of_int k :: clong) = k"
  by (simp add: sint_sbintrunc' signed_take_bit_int_eq_self)

lemma sint64_double_small: "0 \<le> k \<Longrightarrow> k \<le> 60 \<Longrightarrow> sint (2 * word_of_int k :: clong) = 2 * k"
  by (simp add: sint_word_mult sint64_small signed_take_bit_int_eq_self) 

lemma c_int_div_pos:
  assumes "0 < sint n"
  shows "c_int_div r n = Inr (word_of_int (sint r sdiv sint n))"
proof -
  have "n \<noteq> 0" using assms by auto
  moreover have "n \<noteq> - 1" using assms by auto
  ultimately show ?thesis by (simp add: c_int_div_def)
qed

lemma cost_tree:
  assumes "0 \<le> p" "p < 3" "0 < sint (num_nodes D)"
  shows "nccl_tuner_compute_cost P D ncclFuncAllReduce NCCL_ALGO_TREE p pipe sz =
    (if proto_penalty p (internode_bw P * real_of_int (sint (num_channels P)) / 2) = 0
     then Inl FloatDivByZero
     else Inr ((nccl_base_lat ! 0 ! nat p
                + 2 * (real_of_int (sint (word_of_int (sint (num_ranks D) sdiv sint (num_nodes D)) - 1 :: cint))
                         * (nccl_nvlink_lat ! 0 ! nat p)
                       + real_of_int \<lfloor>log 2 (real_of_int (sint (num_nodes D)))\<rfloor> * net_lat P))
               * real_of_int (sint pipe)
               + real (unat sz) / proto_penalty p (internode_bw P * real_of_int (sint (num_channels P)) / 2)))"
  using assms floor_log2_bounds [OF assms(3)]
  by (simp add: nccl_tuner_compute_cost_def table_read_def cost_switch_def Let_def
      c_int_div_pos log2i_nodes sint64_small)

lemma cost_nvls_tree:
  assumes "0 \<le> p" "p < 3" "0 < sint (num_nodes D)"
  shows "nccl_tuner_compute_cost P D ncclFuncAllReduce NCCL_ALGO_NVLS_TREE p pipe sz =
    (if proto_penalty p (internode_bw P * real_of_int (sint (num_channels P)) / 2) = 0
     then Inl FloatDivByZero
     else Inr ((nccl_base_lat ! 5 ! nat p
                + (nccl_nvlink_lat ! 5 ! nat p
                   + real_of_int (2 * \<lfloor>log 2 (real_of_int (sint (num_nodes D)))\<rfloor>) * net_lat P))
               * real_of_int (sint pipe)
               + real (unat sz) / proto_penalty p (internode_bw P * real_of_int (sint (num_channels P)) / 2)))"
  using assms floor_log2_bounds [OF assms(3)]
  by (simp add: nccl_tuner_compute_cost_def table_read_def cost_switch_def Let_def
      log2i_nodes sint64_double_small)

lemma cost_unmodelled:
  assumes "0 \<le> a" "a < 6" "0 \<le> p" "p < 3"
    and "f \<noteq> ncclFuncAllReduce \<or> (a \<noteq> NCCL_ALGO_RING \<and> a \<noteq> NCCL_ALGO_TREE \<and> a \<noteq> NCCL_ALGO_NVLS_TREE)"
  shows "nccl_tuner_compute_cost P D f a p pipe sz = Inr (- 1)"
  using assms
  by (cases f) (auto simp add: nccl_tuner_compute_cost_def table_read_def cost_switch_def)

section \<open>No recommendation for one or two nodes\<close>

text \<open>
  C3. For a topology of at most two nodes the selection engine returns success and
  leaves algorithm, protocol and channel count as the caller passed them, whatever the
  operation, the payload size, the capability flags and the pipeline depth are; no pair
  is costed, so no fault of the cost function can occur either.
\<close>

theorem few_nodes_no_recommendation:
  assumes "sint (num_nodes (dims ctx)) \<le> 2"
  shows "pluginGetCollInfo cost_fn ctx collType nBytes collNetSupport nvlsSupport numPipeOps out
           = Inr (ncclSuccess, out)"
  using assms by (simp add: pluginGetCollInfo_def)

theorem few_nodes_no_recommendation_witness:
  "sint (num_nodes (dims (init_context 16 2))) \<le> 2 \<and>
   pluginGetCollInfo nccl_tuner_compute_cost (init_context 16 2) ncclFuncAllReduce 1048576 0 0 1
       \<lparr>algorithm = - 1, protocol = - 1, nChannels = 0\<rparr>
     = Inr (ncclSuccess, \<lparr>algorithm = - 1, protocol = - 1, nChannels = 0\<rparr>)"
proof -
  have h: "sint (num_nodes (dims (init_context 16 2))) \<le> 2"
    by (simp add: init_context_def)
  show ?thesis
    using h few_nodes_no_recommendation [OF h] by simp
qed

section \<open>Pairs without a cost model\<close>

lemma candidates_in_range:
  assumes "x \<in> set (candidates cn nv)"
  shows "0 \<le> fst x \<and> fst x < 6 \<and> 0 \<le> snd x \<and> snd x < 3"
  using assms by (auto simp add: candidates_eq split: if_splits)

lemma try_pairs_unchanged:
  assumes "\<forall>x\<in>set xs. \<forall>s. try_pair cost_fn ctx f sz pipe (fst x) (snd x) s = Inr s"
  shows "try_pairs cost_fn ctx f sz pipe xs st = Inr st"
  using assms by (induction xs arbitrary: st) (simp_all del: split_paired_All)

lemma try_pair_unmodelled:
  assumes "cost_fn (params ctx) (dims ctx) f a p pipe sz = Inr (- 1)"
  shows "try_pair cost_fn ctx f sz pipe a p st = Inr st"
  using assms by (simp add: try_pair_def)

lemma result_code:
  "pluginGetCollInfo cost_fn ctx f sz cn nv pipe out = Inr res \<Longrightarrow> fst res = ncclSuccess"
  by (auto simp add: pluginGetCollInfo_def split: if_splits sum.splits)

lemma no_model_no_change:
  assumes "f \<noteq> ncclFuncAllReduce"
  shows "pluginGetCollInfo nccl_tuner_compute_cost ctx f sz cn nv pipe out = Inr (ncclSuccess, out)"
proof -
  have "\<forall>x\<in>set (candidates cn nv).
          \<forall>s. try_pair nccl_tuner_compute_cost ctx f sz pipe (fst x) (snd x) s = Inr s"
    using assms candidates_in_range [of _ cn nv]
    by (auto intro!: try_pair_unmodelled cost_unmodelled)
  then have "try_pairs nccl_tuner_compute_cost ctx f sz pipe (candidates cn nv) (out, FLT_MAX)
               = Inr (out, FLT_MAX)"
    by (rule try_pairs_unchanged)
  then show ?thesis
    by (simp add: pluginGetCollInfo_def algo_loop_fold)
qed

text \<open>
  C8. Inside the tables, the cost function returns \<open>-1\<close> for every collective other than
  all-reduce and, for all-reduce, for every algorithm other than ring, tree and NVLS-tree.
  The search passes over such a pair without changing the incumbent, as it does for any
  cost function that returns \<open>-1\<close> for the pair; the plugin's result code is
  \<^verbatim>\<open>ncclSuccess\<close> whenever it returns, whatever the costs are; and for a collective
  without any model the plugin returns success with the outputs as the caller passed
  them.
\<close>

theorem unmodelled_pairs_excluded:
  assumes "0 \<le> algo" "algo < NCCL_NUM_ALGORITHMS" "0 \<le> proto" "proto < NCCL_NUM_PROTOCOLS"
    and "collType \<noteq> ncclFuncAllReduce
         \<or> (algo \<noteq> NCCL_ALGO_RING \<and> algo \<noteq> NCCL_ALGO_TREE \<and> algo \<noteq> NCCL_ALGO_NVLS_TREE)"
  shows "nccl_tuner_compute_cost (params ctx) (dims ctx) collType algo proto numPipeOps nBytes = Inr (- 1)
       \<and> try_pair nccl_tuner_compute_cost ctx collType nBytes numPipeOps algo proto st = Inr st
       \<and> (cost_fn (params ctx) (dims ctx) collType algo proto numPipeOps nBytes = Inr (- 1) \<longrightarrow>
            try_pair cost_fn ctx collType nBytes numPipeOps algo proto st = Inr st)
       \<and> (\<forall>res. pluginGetCollInfo cost_fn ctx collType nBytes collNetSupport nvlsSupport numPipeOps out = Inr res
                 \<longrightarrow> fst res = ncclSuccess)
       \<and> (collType \<noteq> ncclFuncAllReduce \<longrightarrow>
            pluginGetCollInfo nccl_tuner_compute_cost ctx collType nBytes collNetSupport nvlsSupport
                numPipeOps out
              = Inr (ncclSuccess, out))"
proof -
  have c: "nccl_tuner_compute_cost (params ctx) (dims ctx) collType algo proto numPipeOps nBytes = Inr (- 1)"
    using assms by (intro cost_unmodelled) auto
  have g: "cost_fn (params ctx) (dims ctx) collType algo proto numPipeOps nBytes = Inr (- 1) \<longrightarrow>
            try_pair cost_fn ctx collType nBytes numPipeOps algo proto st = Inr st"
    by (simp add: try_pair_unmodelled)
  have r: "\<forall>res. pluginGetCollInfo cost_fn ctx collType nBytes collNetSupport nvlsSupport numPipeOps out = Inr res
                 \<longrightarrow> fst res = ncclSuccess"
    using result_code by blast
  have n: "collType \<noteq> ncclFuncAllReduce \<longrightarrow>
            pluginGetCollInfo nccl_tuner_compute_cost ctx collType nBytes collNetSupport nvlsSupport
                numPipeOps out
              = Inr (ncclSuccess, out)"
    using no_model_no_change by blast
  show ?thesis
    using c try_pair_unmodelled [where cost_fn = nccl_tuner_compute_cost and ctx = ctx, OF c] g r n
    by blast
qed

theorem unmodelled_pairs_excluded_witness:
  "(0::int) \<le> NCCL_ALGO_COLLNET_DIRECT \<and> NCCL_ALGO_COLLNET_DIRECT < NCCL_NUM_ALGORITHMS
   \<and> (0::int) \<le> NCCL_PROTO_SIMPLE \<and> NCCL_PROTO_SIMPLE < NCCL_NUM_PROTOCOLS
   \<and> ncclFuncBroadcast \<noteq> ncclFuncAllReduce
   \<and> nccl_tuner_compute_cost (params (init_context 64 8)) (dims (init_context 64 8))
        ncclFuncBroadcast NCCL_ALGO_COLLNET_DIRECT NCCL_PROTO_SIMPLE 1 1048576 = Inr (- 1)
   \<and> try_pair nccl_tuner_compute_cost (init_context 64 8) ncclFuncBroadcast 1048576 1 NCCL_ALGO_COLLNET_DIRECT NCCL_PROTO_SIMPLE
        (\<lparr>algorithm = - 1, protocol = - 1, nChannels = 0\<rparr>, FLT_MAX)
       = Inr (\<lparr>algorithm = - 1, protocol = - 1, nChannels = 0\<rparr>, FLT_MAX)
   \<and> pluginGetCollInfo nccl_tuner_compute_cost (init_context 64 8) ncclFuncBroadcast 1048576 1 1 1
        \<lparr>algorithm = - 1, protocol = - 1, nChannels = 0\<rparr>
       = Inr (ncclSuccess, \<lparr>algorithm = - 1, protocol = - 1, nChannels = 0\<rparr>)"
  using unmodelled_pairs_excluded [where algo = NCCL_ALGO_COLLNET_DIRECT and proto = NCCL_PROTO_SIMPLE
      and collType = ncclFuncBroadcast and ctx = "init_context 64 8" and numPipeOps = 1
      and nBytes = 1048576 and st = "(\<lparr>algorithm = - 1, protocol = - 1, nChannels = 0\<rparr>, FLT_MAX)"
      and collNetSupport = 1 and nvlsSupport = 1
      and out = "\<lparr>algorithm = - 1, protocol = - 1, nChannels = 0\<rparr>"
      and cost_fn = nccl_tuner_compute_cost]
  by simp

section \<open>The channel count\<close>

lemmas engine_defs =
  pluginGetCollInfo_def algo_loop_fold candidates_eq try_pair_def FLT_MAX_def
  log2i_def log2i_loop.simps

lemma scenario_64_8:
  "pluginGetCollInfo nccl_tuner_compute_cost (init_context 64 8) ncclFuncAllReduce 1048576 0 0 1
       \<lparr>algorithm = - 1, protocol = - 1, nChannels = 0\<rparr>
     = Inr (ncclSuccess, \<lparr>algorithm = NCCL_ALGO_TREE, protocol = NCCL_PROTO_LL, nChannels = 0\<rparr>)"
  by (simp add: engine_defs cost_defs init_defs)

lemma try_pair_nChannels:
  "try_pair cost_fn ctx f sz pipe a p st = Inr st' \<Longrightarrow> nChannels (fst st') = nChannels (fst st)"
  by (auto simp add: try_pair_def split: sum.splits if_splits)

lemma try_pairs_nChannels:
  "try_pairs cost_fn ctx f sz pipe xs st = Inr st' \<Longrightarrow> nChannels (fst st') = nChannels (fst st)"
proof (induction xs arbitrary: st)
  case Nil
  then show ?case by simp
next
  case (Cons x xs)
  from Cons.prems obtain s where
    s: "try_pair cost_fn ctx f sz pipe (fst x) (snd x) st = Inr s" and
    r: "try_pairs cost_fn ctx f sz pipe xs s = Inr st'"
    by (auto split: sum.splits)
  show ?case
    using Cons.IH [OF r] try_pair_nChannels [OF s] by simp
qed

text \<open>
  C4, as the code has it. \<^verbatim>\<open>pluginGetCollInfo\<close> has no assignment to \<^verbatim>\<open>*nChannels\<close>:
  whenever it returns, the channel count is the value the caller passed, whether or not
  algorithm and protocol were set. The configured \<open>num_channels\<close> is read by the cost
  function only.
\<close>

theorem channel_count_untouched:
  assumes "pluginGetCollInfo cost_fn ctx collType nBytes collNetSupport nvlsSupport numPipeOps out = Inr res"
  shows "fst res = ncclSuccess \<and> nChannels (snd res) = nChannels out"
proof (cases "sint (num_nodes (dims ctx)) \<le> 2")
  case True
  with assms show ?thesis by (auto simp add: pluginGetCollInfo_def)
next
  case False
  with assms obtain st where
    st: "try_pairs cost_fn ctx collType nBytes numPipeOps (candidates collNetSupport nvlsSupport) (out, FLT_MAX) = Inr st"
    and res: "res = (ncclSuccess, fst st)"
    by (auto simp add: pluginGetCollInfo_def algo_loop_fold split: sum.splits)
  show ?thesis
    using try_pairs_nChannels [OF st] res by simp
qed

theorem channel_count_untouched_witness:
  "pluginGetCollInfo nccl_tuner_compute_cost (init_context 64 8) ncclFuncAllReduce 1048576 0 0 1
       \<lparr>algorithm = - 1, protocol = - 1, nChannels = 0\<rparr>
     = Inr (ncclSuccess, \<lparr>algorithm = NCCL_ALGO_TREE, protocol = NCCL_PROTO_LL, nChannels = 0\<rparr>)
   \<and> nChannels (snd (ncclSuccess, \<lparr>algorithm = NCCL_ALGO_TREE, protocol = NCCL_PROTO_LL, nChannels = 0\<rparr>))
       = nChannels \<lparr>algorithm = - 1, protocol = - 1, nChannels = 0\<rparr>"
  using channel_count_untouched [OF scenario_64_8] scenario_64_8 by simp

text \<open>
  In the scenario of 64 ranks on 8 nodes the engine recommends (tree, LL) and the channel
  count stays at the caller's 0, while the configured budget is 16.
\<close>

theorem channel_count_counterexample:
  "pluginGetCollInfo nccl_tuner_compute_cost (init_context 64 8) ncclFuncAllReduce 1048576 0 0 1
       \<lparr>algorithm = - 1, protocol = - 1, nChannels = 0\<rparr>
     = Inr (ncclSuccess, \<lparr>algorithm = NCCL_ALGO_TREE, protocol = NCCL_PROTO_LL, nChannels = 0\<rparr>)
   \<and> sint (num_channels (params (init_context 64 8))) = 16
   \<and> nChannels \<lparr>algorithm = NCCL_ALGO_TREE, protocol = NCCL_PROTO_LL, nChannels = 0\<rparr>
       \<noteq> sint (num_channels (params (init_context 64 8)))"
  by (simp add: scenario_64_8) (simp add: init_defs)

section \<open>Zero entries of the base-latency table\<close>

lemma scenario_4_4:
  "pluginGetCollInfo nccl_tuner_compute_cost (init_context 4 4) ncclFuncAllReduce 1048576 0 0 1
       \<lparr>algorithm = - 1, protocol = - 1, nChannels = 0\<rparr>
     = Inr (ncclSuccess, \<lparr>algorithm = NCCL_ALGO_TREE, protocol = NCCL_PROTO_SIMPLE, nChannels = 0\<rparr>)"
  by (simp add: engine_defs cost_defs init_defs)

text \<open>
  The pair (tree, Simple) is visited whatever the capability flags are, its base latency
  is the table's 0, and with one rank on each of four nodes it is the pair the engine
  recommends: the zero is costed as a latency of zero.
\<close>

theorem zero_entry_counterexample:
  "(NCCL_ALGO_TREE, NCCL_PROTO_SIMPLE) \<in> set (candidates 0 0)
   \<and> table_read nccl_base_lat NCCL_ALGO_TREE NCCL_PROTO_SIMPLE = Inr 0
   \<and> nccl_tuner_compute_cost (params (init_context 4 4)) (dims (init_context 4 4))
        ncclFuncAllReduce NCCL_ALGO_TREE NCCL_PROTO_SIMPLE 1 1048576 = Inr 14.44140625
   \<and> pluginGetCollInfo nccl_tuner_compute_cost (init_context 4 4) ncclFuncAllReduce 1048576 0 0 1
        \<lparr>algorithm = - 1, protocol = - 1, nChannels = 0\<rparr>
       = Inr (ncclSuccess, \<lparr>algorithm = NCCL_ALGO_TREE, protocol = NCCL_PROTO_SIMPLE, nChannels = 0\<rparr>)"
  by (simp add: scenario_4_4) (simp add: candidates_eq cost_defs init_defs log2i_def log2i_loop.simps)

lemma init_bw: "internode_bw init_params * real_of_int (sint (num_channels init_params)) = 858993.4592"
  by (simp add: init_defs)

lemma init_net_lat: "net_lat init_params = 3"
  by (simp add: init_defs)

lemma proto_penalty_pos: "0 < bw \<Longrightarrow> 0 < proto_penalty p bw"
  by (simp add: proto_penalty_def)

lemma candidates_subset:
  assumes "x \<in> set (candidates cn nv)"
  shows "x = (0, 0) \<or> x = (0, 1) \<or> x = (0, 2) \<or> x = (1, 0) \<or> x = (1, 1) \<or> x = (1, 2)
       \<or> x = (2, 0) \<or> x = (2, 1) \<or> x = (2, 2) \<or> x = (3, 0) \<or> x = (3, 1) \<or> x = (3, 2)
       \<or> x = (5, 2)"
  using assms by (auto simp add: candidates_eq split: if_splits)

text \<open>
  C5, as the code has it. Of the pairs the search visits, the base latency is nonzero
  exactly for (tree, LL), (tree, LL128) and the three ring pairs. The admissibility rules
  do not look at the table: the CollNet pairs, (tree, Simple) and (NVLS-tree, Simple)
  reach the cost function with a base latency of 0. For the CollNet pairs the cost
  function returns \<open>-1\<close>; for (tree, Simple) and (NVLS-tree, Simple) on an all-reduce
  the cost is computed with 0 as the base latency. The loops visit (tree, Simple) in
  every call, (NVLS-tree, Simple) when \<open>nvlsSupport\<close> is set and the six CollNet pairs when
  \<open>collNetSupport\<close> is set: they are one pass over the list \<open>candidates\<close>.
\<close>

theorem base_latency_of_visited_pairs:
  assumes "x \<in> set (candidates collNetSupport nvlsSupport)"
  shows "(table_read nccl_base_lat (fst x) (snd x) = Inr (nccl_base_lat ! nat (fst x) ! nat (snd x))
             \<and> 0 \<le> nccl_base_lat ! nat (fst x) ! nat (snd x)
             \<and> (nccl_base_lat ! nat (fst x) ! nat (snd x) \<noteq> 0 \<longleftrightarrow>
                  x \<in> {(NCCL_ALGO_TREE, NCCL_PROTO_LL), (NCCL_ALGO_TREE, NCCL_PROTO_LL128),
                       (NCCL_ALGO_RING, NCCL_PROTO_LL), (NCCL_ALGO_RING, NCCL_PROTO_LL128),
                       (NCCL_ALGO_RING, NCCL_PROTO_SIMPLE)}))
       \<and> (fst x = NCCL_ALGO_COLLNET_DIRECT \<or> fst x = NCCL_ALGO_COLLNET_CHAIN \<longrightarrow>
            nccl_tuner_compute_cost P D collType (fst x) (snd x) pipe sz = Inr (- 1))
       \<and> (x = (NCCL_ALGO_TREE, NCCL_PROTO_SIMPLE) \<and> 0 < sint (num_nodes D) \<longrightarrow>
            nccl_tuner_compute_cost init_params D ncclFuncAllReduce (fst x) (snd x) pipe sz
              = Inr ((0 + 2 * (real_of_int (sint (word_of_int (sint (num_ranks D) sdiv sint (num_nodes D)) - 1 :: cint)) * 28
                               + real_of_int \<lfloor>log 2 (real_of_int (sint (num_nodes D)))\<rfloor> * 3))
                     * real_of_int (sint pipe)
                     + real (unat sz) / 429496.7296))
       \<and> (x = (NCCL_ALGO_NVLS_TREE, NCCL_PROTO_SIMPLE) \<and> 0 < sint (num_nodes D) \<longrightarrow>
            nccl_tuner_compute_cost init_params D ncclFuncAllReduce (fst x) (snd x) pipe sz
              = Inr ((0 + (25 + real_of_int (2 * \<lfloor>log 2 (real_of_int (sint (num_nodes D)))\<rfloor>) * 3))
                     * real_of_int (sint pipe)
                     + real (unat sz) / 429496.7296))
       \<and> (NCCL_ALGO_TREE, NCCL_PROTO_SIMPLE) \<in> set (candidates collNetSupport nvlsSupport)
       \<and> (nvlsSupport \<noteq> 0 \<longrightarrow>
            (NCCL_ALGO_NVLS_TREE, NCCL_PROTO_SIMPLE) \<in> set (candidates collNetSupport nvlsSupport))
       \<and> (collNetSupport \<noteq> 0 \<longrightarrow>
            (\<forall>p\<in>{NCCL_PROTO_LL, NCCL_PROTO_LL128, NCCL_PROTO_SIMPLE}.
               (NCCL_ALGO_COLLNET_DIRECT, p) \<in> set (candidates collNetSupport nvlsSupport)
               \<and> (NCCL_ALGO_COLLNET_CHAIN, p) \<in> set (candidates collNetSupport nvlsSupport)))
       \<and> algo_loop cost_fn ctx collType nBytes collNetSupport nvlsSupport numPipeOps 0 st
           = try_pairs cost_fn ctx collType nBytes numPipeOps (candidates collNetSupport nvlsSupport) st"
proof -
  have v: "(NCCL_ALGO_TREE, NCCL_PROTO_SIMPLE) \<in> set (candidates collNetSupport nvlsSupport)
       \<and> (nvlsSupport \<noteq> 0 \<longrightarrow>
            (NCCL_ALGO_NVLS_TREE, NCCL_PROTO_SIMPLE) \<in> set (candidates collNetSupport nvlsSupport))
       \<and> (collNetSupport \<noteq> 0 \<longrightarrow>
            (\<forall>p\<in>{NCCL_PROTO_LL, NCCL_PROTO_LL128, NCCL_PROTO_SIMPLE}.
               (NCCL_ALGO_COLLNET_DIRECT, p) \<in> set (candidates collNetSupport nvlsSupport)
               \<and> (NCCL_ALGO_COLLNET_CHAIN, p) \<in> set (candidates collNetSupport nvlsSupport)))"
    by (simp add: candidates_eq)
  note w = algo_loop_fold [of cost_fn ctx collType nBytes collNetSupport nvlsSupport numPipeOps st]
  have a: "table_read nccl_base_lat (fst x) (snd x) = Inr (nccl_base_lat ! nat (fst x) ! nat (snd x))
             \<and> 0 \<le> nccl_base_lat ! nat (fst x) ! nat (snd x)
             \<and> (nccl_base_lat ! nat (fst x) ! nat (snd x) \<noteq> 0 \<longleftrightarrow>
                  x \<in> {(NCCL_ALGO_TREE, NCCL_PROTO_LL), (NCCL_ALGO_TREE, NCCL_PROTO_LL128),
                       (NCCL_ALGO_RING, NCCL_PROTO_LL), (NCCL_ALGO_RING, NCCL_PROTO_LL128),
                       (NCCL_ALGO_RING, NCCL_PROTO_SIMPLE)})"
    using candidates_subset [OF assms]
    by (elim disjE) (simp_all add: table_read_def nccl_base_lat_def)
  have b: "fst x = NCCL_ALGO_COLLNET_DIRECT \<or> fst x = NCCL_ALGO_COLLNET_CHAIN \<longrightarrow>
            nccl_tuner_compute_cost P D collType (fst x) (snd x) pipe sz = Inr (- 1)"
    using candidates_in_range [OF assms] by (auto intro!: cost_unmodelled)
  have c: "0 < sint (num_nodes D) \<longrightarrow>
            nccl_tuner_compute_cost init_params D ncclFuncAllReduce NCCL_ALGO_TREE NCCL_PROTO_SIMPLE pipe sz
              = Inr ((0 + 2 * (real_of_int (sint (word_of_int (sint (num_ranks D) sdiv sint (num_nodes D)) - 1 :: cint)) * 28
                               + real_of_int \<lfloor>log 2 (real_of_int (sint (num_nodes D)))\<rfloor> * 3))
                     * real_of_int (sint pipe)
                     + real (unat sz) / 429496.7296)"
    by (simp add: cost_tree init_bw init_net_lat proto_penalty_def nccl_base_lat_def nccl_nvlink_lat_def)
  have d: "0 < sint (num_nodes D) \<longrightarrow>
            nccl_tuner_compute_cost init_params D ncclFuncAllReduce NCCL_ALGO_NVLS_TREE NCCL_PROTO_SIMPLE pipe sz
              = Inr ((0 + (25 + real_of_int (2 * \<lfloor>log 2 (real_of_int (sint (num_nodes D)))\<rfloor>) * 3))
                     * real_of_int (sint pipe)
                     + real (unat sz) / 429496.7296)"
    by (simp add: cost_nvls_tree init_bw init_net_lat proto_penalty_def nccl_base_lat_def nccl_nvlink_lat_def)
  show ?thesis
    using a b c d v w by auto
qed

theorem base_latency_of_visited_pairs_witness:
  "(NCCL_ALGO_RING, NCCL_PROTO_SIMPLE) \<in> set (candidates 0 0)
   \<and> table_read nccl_base_lat NCCL_ALGO_RING NCCL_PROTO_SIMPLE = Inr 8.4
   \<and> (NCCL_ALGO_TREE, NCCL_PROTO_SIMPLE) \<in> set (candidates 0 0)
   \<and> (0::int) < sint (num_nodes \<lparr>num_ranks = 4, num_nodes = 4\<rparr>)
   \<and> nccl_tuner_compute_cost init_params \<lparr>num_ranks = 4, num_nodes = 4\<rparr>
        ncclFuncAllReduce NCCL_ALGO_TREE NCCL_PROTO_SIMPLE 1 1048576 = Inr 14.44140625"
proof -
  have m: "(NCCL_ALGO_TREE, NCCL_PROTO_SIMPLE) \<in> set (candidates 0 0)"
    by (simp add: candidates_eq)
  have r: "(NCCL_ALGO_RING, NCCL_PROTO_SIMPLE) \<in> set (candidates 0 0)"
    by (simp add: candidates_eq)
  have l: "\<lfloor>log 2 (4::real)\<rfloor> = 2"
    using floor_log_nat_eq_if [of 2 2 4] by simp
  show ?thesis
    using base_latency_of_visited_pairs [OF m, of init_params "\<lparr>num_ranks = 4, num_nodes = 4\<rparr>" ncclFuncAllReduce 1 1048576]
          base_latency_of_visited_pairs [OF r, of init_params "\<lparr>num_ranks = 4, num_nodes = 4\<rparr>" ncclFuncAllReduce 1 1048576]
          m r
    by (simp add: l signed_divide_int_def table_read_def nccl_base_lat_def)
qed

section \<open>The bandwidth under the division\<close>

lemma cost_switch_bw:
  assumes "cost_switch P D f a lat il el = Inr (Some (lat', bw))"
  shows "bw = internode_bw P * real_of_int (sint (num_channels P))
       \<or> bw = internode_bw P * real_of_int (sint (num_channels P)) / 2"
  using assms
  by (cases f) (auto simp add: cost_switch_def Let_def split: if_splits sum.splits option.splits)

lemma cost_switch_fault:
  assumes "cost_switch P D f a lat il el = Inl e"
  shows "e = IntDivTrap \<or> e = NonTermination"
  using assms
  by (cases f) (auto simp add: cost_switch_def c_int_div_def Let_def split: if_splits sum.splits option.splits)

lemma init_penalty_pos:
  assumes "cost_switch init_params D f a l1 l2 l3 = Inr (Some (l', b))"
  shows "0 < proto_penalty p b"
proof -
  have "0 < b" using cost_switch_bw [OF assms] by (auto simp add: init_bw)
  then show ?thesis by (rule proto_penalty_pos)
qed

text \<open>
  C9. With the parameters that \<^verbatim>\<open>pluginInit\<close> stores, whenever the switch of the cost
  function hands a bandwidth on to the division, the bandwidth after the protocol
  penalty is positive, and the cost function never ends in a division by zero, for any
  dimensions, collective, pair, pipeline depth and size.
\<close>

theorem bandwidth_positive:
  "(cost_switch init_params D func algo lat il el = Inr (Some (lat', bw)) \<longrightarrow> 0 < proto_penalty proto bw)
   \<and> nccl_tuner_compute_cost init_params D func algo proto pipe_ops sz \<noteq> Inl FloatDivByZero"
proof -
  note pos = init_penalty_pos [of D func algo _ _ _ _ _ proto]
  have "nccl_tuner_compute_cost init_params D func algo proto pipe_ops sz \<noteq> Inl FloatDivByZero"
  proof
    assume "nccl_tuner_compute_cost init_params D func algo proto pipe_ops sz = Inl FloatDivByZero"
    then obtain l1 l2 l' b where
      "cost_switch init_params D func algo l1 l2 (net_lat init_params) = Inr (Some (l', b))"
      "proto_penalty proto b = 0"
      by (auto simp add: nccl_tuner_compute_cost_def table_read_def Let_def
            dest: cost_switch_fault
            split: sum.splits option.splits if_splits prod.splits)
    with pos [of l1 l2 "net_lat init_params" l' b] show False by simp
  qed
  with pos show ?thesis by blast
qed

theorem bandwidth_positive_witness:
  "cost_switch init_params \<lparr>num_ranks = 64, num_nodes = 8\<rparr> ncclFuncAllReduce NCCL_ALGO_RING 6.6 0.6 3
     = Inr (Some (120.6, 858993.4592))
   \<and> 0 < proto_penalty NCCL_PROTO_LL 858993.4592
   \<and> nccl_tuner_compute_cost init_params \<lparr>num_ranks = 64, num_nodes = 8\<rparr> ncclFuncAllReduce
        NCCL_ALGO_RING NCCL_PROTO_LL 1 1048576 \<noteq> Inl FloatDivByZero"
proof -
  have h: "cost_switch init_params \<lparr>num_ranks = 64, num_nodes = 8\<rparr> ncclFuncAllReduce NCCL_ALGO_RING 6.6 0.6 3
     = Inr (Some (120.6, 858993.4592))"
    by (simp add: cost_switch_def init_defs)
  show ?thesis
    using h bandwidth_positive [of "\<lparr>num_ranks = 64, num_nodes = 8\<rparr>" ncclFuncAllReduce NCCL_ALGO_RING
        "6.6" "0.6" 3 "120.6" "858993.4592" NCCL_PROTO_LL 1 1048576]
    by simp
qed

section \<open>Monotonicity in the payload size\<close>

text \<open>
  C7. With the parameters of \<^verbatim>\<open>pluginInit\<close> and everything but the size fixed, a larger
  size never gives a smaller cost: if the cost function returns for \<open>s1\<close> then it returns
  for every \<open>s2 \<ge> s1\<close>, with a cost at least as large (the sentinel \<open>-1\<close> included, which
  does not depend on the size).
\<close>

theorem cost_monotone_in_size:
  assumes "s1 \<le> s2"
    and "nccl_tuner_compute_cost init_params D func algo proto pipe_ops s1 = Inr c1"
  shows "\<exists>c2. nccl_tuner_compute_cost init_params D func algo proto pipe_ops s2 = Inr c2 \<and> c1 \<le> c2"
proof -
  have le: "real (unat s1) \<le> real (unat s2)"
    using assms(1) by (simp add: word_le_nat_alt)
  have mono: "real (unat s1) / proto_penalty proto b \<le> real (unat s2) / proto_penalty proto b"
    if "cost_switch init_params D func algo l1 l2 l3 = Inr (Some (l', b))" for l1 l2 l3 l' b
    using init_penalty_pos [OF that, of proto] le by (simp add: divide_right_mono)
  show ?thesis
    using assms(2) mono
    by (auto simp add: nccl_tuner_compute_cost_def Let_def
          split: sum.splits option.splits prod.splits if_splits)
qed

theorem cost_monotone_in_size_witness:
  "(1024 :: size_t) \<le> 1048576
   \<and> nccl_tuner_compute_cost init_params \<lparr>num_ranks = 64, num_nodes = 8\<rparr> ncclFuncAllReduce
        NCCL_ALGO_RING NCCL_PROTO_LL 1 1024 = Inr 120.602384185791015625
   \<and> nccl_tuner_compute_cost init_params \<lparr>num_ranks = 64, num_nodes = 8\<rparr> ncclFuncAllReduce
        NCCL_ALGO_RING NCCL_PROTO_LL 1 1048576 = Inr 123.04140625
   \<and> (120.602384185791015625 :: real) \<le> 123.04140625"
proof -
  have h1: "(1024 :: size_t) \<le> 1048576" by simp
  have h2: "nccl_tuner_compute_cost init_params \<lparr>num_ranks = 64, num_nodes = 8\<rparr> ncclFuncAllReduce
        NCCL_ALGO_RING NCCL_PROTO_LL 1 1024 = Inr 120.602384185791015625"
    by (simp add: cost_defs init_defs)
  have h3: "nccl_tuner_compute_cost init_params \<lparr>num_ranks = 64, num_nodes = 8\<rparr> ncclFuncAllReduce
        NCCL_ALGO_RING NCCL_PROTO_LL 1 1048576 = Inr 123.04140625"
    by (simp add: cost_defs init_defs)
  show ?thesis
    using cost_monotone_in_size [OF h1 h2] h1 h2 h3 by simp
qed

section \<open>The sign of the cost\<close>

lemma proto_cases: "0 \<le> p \<Longrightarrow> p < 3 \<Longrightarrow> p = 0 \<or> p = 1 \<or> p = (2::int)"
  by arith

lemma ring_latency_nonneg:
  assumes "0 \<le> p" "p < 3" "1 \<le> N" "- 2 \<le> J"
  shows "0 \<le> nccl_base_lat ! 1 ! nat p
              + (real_of_int (2 * N) * 3 + real_of_int J * (nccl_nvlink_lat ! 1 ! nat p))"
proof -
  have n: "1 \<le> real_of_int N" using assms(3) by simp
  have j: "- 2 \<le> real_of_int J" using assms(4) by simp
  from proto_cases [OF assms(1,2)] show ?thesis
    using n j by (elim disjE) (simp_all add: nccl_base_lat_def nccl_nvlink_lat_def)
qed

lemma tree_latency_nonneg:
  assumes "0 \<le> p" "p < 3" "0 \<le> Q" "0 \<le> k"
  shows "0 \<le> nccl_base_lat ! 0 ! nat p
              + 2 * (real_of_int Q * (nccl_nvlink_lat ! 0 ! nat p) + real_of_int k * 3)"
proof -
  have q: "0 \<le> real_of_int Q" using assms(3) by simp
  have k: "0 \<le> real_of_int k" using assms(4) by simp
  from proto_cases [OF assms(1,2)] show ?thesis
    using q k by (elim disjE) (simp_all add: nccl_base_lat_def nccl_nvlink_lat_def)
qed

lemma nvls_tree_latency_nonneg:
  assumes "0 \<le> p" "p < 3" "0 \<le> k"
  shows "0 \<le> nccl_base_lat ! 5 ! nat p
              + (nccl_nvlink_lat ! 5 ! nat p + real_of_int (2 * k) * 3)"
proof -
  have k: "0 \<le> real_of_int k" using assms(3) by simp
  from proto_cases [OF assms(1,2)] show ?thesis
    using k by (elim disjE) (simp_all add: nccl_base_lat_def nccl_nvlink_lat_def)
qed

lemma init_half_bw: "internode_bw init_params * real_of_int (sint (num_channels init_params)) / 2 = 429496.7296"
  by (simp add: init_defs)

lemma cost_nonneg:
  assumes "0 \<le> lat" "1 \<le> sint (pipe::cint)" "0 < bw"
  shows "0 \<le> lat * real_of_int (sint pipe) + real (unat (sz::size_t)) / bw"
proof -
  have "0 \<le> real_of_int (sint pipe)" using assms(2) by simp
  then have "0 \<le> lat * real_of_int (sint pipe)" using assms(1) by simp
  moreover have "0 \<le> real (unat sz) / bw" using assms(3) by simp
  ultimately show ?thesis by simp
qed

lemma sdiv_pos: "0 \<le> (a::int) \<Longrightarrow> 0 < b \<Longrightarrow> a sdiv b = a div b"
  by (simp add: signed_divide_int_def sgn_if)

lemma tree_quotient:
  assumes "1 \<le> sint (n::cint)" "sint n \<le> sint (r::cint)"
  shows "sint (word_of_int (sint r sdiv sint n) - 1 :: cint) = sint r div sint n - 1"
    and "0 \<le> sint r div sint n - 1"
proof -
  have d: "sint r sdiv sint n = sint r div sint n" using assms by (simp add: sdiv_pos)
  have "0 < sint r div sint n"
    using assms by (simp add: pos_imp_zdiv_pos_iff)
  then have lo: "1 \<le> sint r div sint n" by simp
  have "sint r div sint n \<le> sint r"
    using assms by (simp add: int_div_le_self)
  then have hi: "sint r div sint n < 2147483648" using sint32_lt [of r] by simp
  have q: "sint (word_of_int (sint r div sint n) :: cint) = sint r div sint n"
    using lo hi by (simp add: sint_sbintrunc' stb31)
  show "sint (word_of_int (sint r sdiv sint n) - 1 :: cint) = sint r div sint n - 1"
    using lo hi q by (simp add: d sint32_pred)
  show "0 \<le> sint r div sint n - 1" using lo by simp
qed

lemma ring_steps:
  assumes "1 \<le> sint (n::cint)" "sint n \<le> sint (r::cint)" "sint r \<le> 1073741824" "sint n < 1073741824"
  shows "sint (2 * n) = 2 * sint n"
    and "sint (2 * (r - 1)) = 2 * (sint r - 1)"
    and "sint (2 * (r - 1) - 2 * n) = 2 * (sint r - 1) - 2 * sint n"
proof -
  show a: "sint (2 * n) = 2 * sint n" using assms by (simp add: sint32_double)
  have p: "sint (r - 1) = sint r - 1" using assms by (simp add: sint32_pred)
  have "sint (2 * (r - 1)) = 2 * sint (r - 1)"
    by (rule sint32_double) (use assms p in linarith)+
  then show b: "sint (2 * (r - 1)) = 2 * (sint r - 1)" unfolding p .
  have lo: "- 2147483648 \<le> 2 * (sint r - 1) - 2 * sint n" using assms by simp
  have hi: "2 * (sint r - 1) - 2 * sint n < 2147483648" using assms by simp
  have "sint (2 * (r - 1) - 2 * n) = sint (2 * (r - 1)) - sint (2 * n)"
    by (rule sint32_diff) (simp_all only: a b lo hi)
  then show "sint (2 * (r - 1) - 2 * n) = 2 * (sint r - 1) - 2 * sint n"
    unfolding a b .
qed

text \<open>
  C10, as the code has it. With the parameters of \<^verbatim>\<open>pluginInit\<close>, \<open>1 \<le> nodeCount \<le>
  rankCount\<close>, a pipeline depth of at least 1 and identifiers inside the tables, the cost
  function returns, and its result is \<open>-1\<close> or non-negative, provided that for the ring
  all-reduce the step counts fit the C \<^verbatim>\<open>int\<close>: \<open>rankCount \<le> 2\<^sup>3\<^sup>0\<close> and
  \<open>nodeCount < 2\<^sup>3\<^sup>0\<close>. The other algorithms and collectives need no such bound. This
  covers the ring with one rank per node, where the intra-node step count is \<open>-2\<close>.
\<close>

theorem cost_sentinel_or_nonneg:
  assumes "1 \<le> sint (num_nodes D)" "sint (num_nodes D) \<le> sint (num_ranks D)"
    and "func = ncclFuncAllReduce \<and> algo = NCCL_ALGO_RING \<longrightarrow>
           sint (num_ranks D) \<le> 2 ^ 30 \<and> sint (num_nodes D) < 2 ^ 30"
    and "0 \<le> algo" "algo < NCCL_NUM_ALGORITHMS" "0 \<le> proto" "proto < NCCL_NUM_PROTOCOLS"
    and "1 \<le> sint pipe_ops"
  shows "\<exists>c. nccl_tuner_compute_cost init_params D func algo proto pipe_ops sz = Inr c
             \<and> (c = - 1 \<or> 0 \<le> c)"
proof -
  have nodes: "0 < sint (num_nodes D)" using assms(1) by simp
  consider
      (none) "func \<noteq> ncclFuncAllReduce
              \<or> (algo \<noteq> NCCL_ALGO_RING \<and> algo \<noteq> NCCL_ALGO_TREE \<and> algo \<noteq> NCCL_ALGO_NVLS_TREE)"
    | (ring) "func = ncclFuncAllReduce" "algo = NCCL_ALGO_RING"
    | (tree) "func = ncclFuncAllReduce" "algo = NCCL_ALGO_TREE"
    | (nvls) "func = ncclFuncAllReduce" "algo = NCCL_ALGO_NVLS_TREE"
    by blast
  then show ?thesis
  proof cases
    case none
    then show ?thesis
      using cost_unmodelled [OF assms(4-7), of func init_params D pipe_ops sz] by simp
  next
    case ring
    have r: "1 \<le> sint (num_nodes D)" "sint (num_nodes D) \<le> sint (num_ranks D)"
            "sint (num_ranks D) \<le> 1073741824" "sint (num_nodes D) < 1073741824"
      using assms(1-3) ring by simp_all
    have j: "- 2 \<le> 2 * (sint (num_ranks D) - 1) - 2 * sint (num_nodes D)"
      using assms(2) by simp
    have lat: "0 \<le> nccl_base_lat ! 1 ! nat proto
              + (real_of_int (sint (2 * num_nodes D)) * net_lat init_params
                 + real_of_int (sint (2 * (num_ranks D - 1) - 2 * num_nodes D)) * (nccl_nvlink_lat ! 1 ! nat proto))"
      using ring_latency_nonneg [OF assms(6,7) assms(1) j]
      by (simp only: ring_steps [OF r] init_net_lat)
    have bw: "0 < proto_penalty proto (internode_bw init_params * real_of_int (sint (num_channels init_params)))"
      by (simp add: init_bw proto_penalty_pos)
    show ?thesis
      using cost_nonneg [OF lat assms(8) bw, of sz] bw
      by (simp add: ring cost_ring [OF assms(6,7)])
  next
    case tree
    have lat: "0 \<le> nccl_base_lat ! 0 ! nat proto
                + 2 * (real_of_int (sint (word_of_int (sint (num_ranks D) sdiv sint (num_nodes D)) - 1 :: cint))
                         * (nccl_nvlink_lat ! 0 ! nat proto)
                       + real_of_int \<lfloor>log 2 (real_of_int (sint (num_nodes D)))\<rfloor> * net_lat init_params)"
      using tree_latency_nonneg [OF assms(6,7) tree_quotient(2) [OF assms(1,2)] floor_log2_bounds(1) [OF nodes]]
      by (simp only: tree_quotient(1) [OF assms(1,2)] init_net_lat)
    have bw: "0 < proto_penalty proto (internode_bw init_params * real_of_int (sint (num_channels init_params)) / 2)"
      by (simp add: init_half_bw proto_penalty_pos)
    show ?thesis
      using cost_nonneg [OF lat assms(8) bw, of sz] bw
      by (simp add: tree cost_tree [OF assms(6,7) nodes])
  next
    case nvls
    have lat: "0 \<le> nccl_base_lat ! 5 ! nat proto
                + (nccl_nvlink_lat ! 5 ! nat proto
                   + real_of_int (2 * \<lfloor>log 2 (real_of_int (sint (num_nodes D)))\<rfloor>) * net_lat init_params)"
      using nvls_tree_latency_nonneg [OF assms(6,7) floor_log2_bounds(1) [OF nodes]]
      by (simp only: init_net_lat)
    have bw: "0 < proto_penalty proto (internode_bw init_params * real_of_int (sint (num_channels init_params)) / 2)"
      by (simp add: init_half_bw proto_penalty_pos)
    show ?thesis
      using cost_nonneg [OF lat assms(8) bw, of sz] bw
      by (simp add: nvls cost_nvls_tree [OF assms(6,7) nodes])
  qed
qed

theorem cost_sentinel_or_nonneg_witness:
  "(1::int) \<le> sint (num_nodes \<lparr>num_ranks = 8, num_nodes = 8\<rparr>)
   \<and> sint (num_nodes \<lparr>num_ranks = 8, num_nodes = 8\<rparr>) \<le> sint (num_ranks \<lparr>num_ranks = 8, num_nodes = 8\<rparr>)
   \<and> ncclFuncAllReduce = ncclFuncAllReduce \<and> NCCL_ALGO_RING = NCCL_ALGO_RING
   \<and> sint (num_ranks \<lparr>num_ranks = 8, num_nodes = 8\<rparr>) \<le> 2 ^ 30
   \<and> sint (num_nodes \<lparr>num_ranks = 8, num_nodes = 8\<rparr>) < 2 ^ 30
   \<and> (0::int) \<le> NCCL_ALGO_RING \<and> NCCL_ALGO_RING < NCCL_NUM_ALGORITHMS
   \<and> (0::int) \<le> NCCL_PROTO_SIMPLE \<and> NCCL_PROTO_SIMPLE < NCCL_NUM_PROTOCOLS
   \<and> (1::int) \<le> sint (1 :: cint)
   \<and> sint (2 * (num_ranks \<lparr>num_ranks = 8, num_nodes = 8\<rparr> - 1) - 2 * num_nodes \<lparr>num_ranks = 8, num_nodes = 8\<rparr>) = - 2
   \<and> nccl_tuner_compute_cost init_params \<lparr>num_ranks = 8, num_nodes = 8\<rparr> ncclFuncAllReduce
        NCCL_ALGO_RING NCCL_PROTO_SIMPLE 1 1048576 = Inr 50.8207031250
   \<and> ((50.8207031250 :: real) = - 1 \<or> (0 :: real) \<le> 50.8207031250)"
  using cost_sentinel_or_nonneg [where D = "\<lparr>num_ranks = 8, num_nodes = 8\<rparr>" and algo = NCCL_ALGO_RING
      and proto = NCCL_PROTO_SIMPLE and pipe_ops = 1 and func = ncclFuncAllReduce and sz = 1048576]
  by (simp add: cost_defs init_defs)

text \<open>
  With \<open>3 \<times> 2\<^sup>2\<^sup>9\<close> ranks on one node, \<^verbatim>\<open>2 * (num_ranks - 1)\<close> leaves the range of
  \<^verbatim>\<open>int\<close>; the step count comes out negative and so does the cost.
\<close>

theorem cost_sentinel_or_nonneg_counterexample:
  "(1::int) \<le> sint (num_nodes \<lparr>num_ranks = 1610612736, num_nodes = 1\<rparr>)
   \<and> sint (num_nodes \<lparr>num_ranks = 1610612736, num_nodes = 1\<rparr>)
       \<le> sint (num_ranks \<lparr>num_ranks = 1610612736, num_nodes = 1\<rparr>)
   \<and> (1::int) \<le> sint (1 :: cint)
   \<and> sint (2 * (num_ranks \<lparr>num_ranks = 1610612736, num_nodes = 1\<rparr> - 1)) = - 1073741826
   \<and> nccl_tuner_compute_cost init_params \<lparr>num_ranks = 1610612736, num_nodes = 1\<rparr> ncclFuncAllReduce
        NCCL_ALGO_RING NCCL_PROTO_LL 1 0 = Inr (- 644245084.2)
   \<and> (- 644245084.2 :: real) \<noteq> - 1 \<and> \<not> (0 :: real) \<le> - 644245084.2"
  by (simp add: cost_defs init_defs)

section \<open>The ring and the tree formulas\<close>

lemma init_penalty_ring_nz:
  "proto_penalty p (internode_bw init_params * real_of_int (sint (num_channels init_params))) \<noteq> 0"
  using proto_penalty_pos [of "858993.4592" p] by (simp add: init_bw)

lemma init_penalty_tree_nz:
  "proto_penalty p (internode_bw init_params * real_of_int (sint (num_channels init_params)) / 2) \<noteq> 0"
  using proto_penalty_pos [of "429496.7296" p] by (simp add: init_half_bw)

text \<open>
  C2. For an all-reduce with the ring algorithm the cost function returns
  \<open>(base + interSteps \<times> interLat + intraSteps \<times> intraLat) \<times> pipe_ops + size / bw\<close> with
  \<open>interSteps = 2 \<times> num_nodes\<close>, \<open>intraSteps = 2 \<times> (num_ranks - 1) - 2 \<times> num_nodes\<close> in the
  arithmetic of \<^verbatim>\<open>int\<close>, and \<open>bw\<close> the inter-node bandwidth times the channel count under
  the protocol penalty. Where the step counts fit the \<^verbatim>\<open>int\<close>, this is the closed form
  of the specification over the integers.
\<close>

theorem ring_allreduce_cost:
  assumes "0 \<le> proto" "proto < NCCL_NUM_PROTOCOLS"
  shows "nccl_tuner_compute_cost init_params D ncclFuncAllReduce NCCL_ALGO_RING proto pipe_ops sz
           = Inr ((nccl_base_lat ! 1 ! nat proto
                   + (real_of_int (sint (2 * num_nodes D)) * net_lat init_params
                      + real_of_int (sint (2 * (num_ranks D - 1) - 2 * num_nodes D))
                        * (nccl_nvlink_lat ! 1 ! nat proto)))
                  * real_of_int (sint pipe_ops)
                  + real (unat sz)
                    / proto_penalty proto
                        (internode_bw init_params * real_of_int (sint (num_channels init_params))))
       \<and> (1 \<le> sint (num_nodes D) \<and> sint (num_nodes D) \<le> sint (num_ranks D)
            \<and> sint (num_ranks D) \<le> 2 ^ 30 \<and> sint (num_nodes D) < 2 ^ 30 \<longrightarrow>
          nccl_tuner_compute_cost init_params D ncclFuncAllReduce NCCL_ALGO_RING proto pipe_ops sz
            = Inr (ring_allreduce_cost_spec (nccl_base_lat ! 1 ! nat proto) (net_lat init_params)
                     (nccl_nvlink_lat ! 1 ! nat proto) (internode_bw init_params)
                     (sint (num_channels init_params)) proto
                     (sint (num_ranks D)) (sint (num_nodes D)) (sint pipe_ops) (unat sz)))"
proof -
  have a: "nccl_tuner_compute_cost init_params D ncclFuncAllReduce NCCL_ALGO_RING proto pipe_ops sz
           = Inr ((nccl_base_lat ! 1 ! nat proto
                   + (real_of_int (sint (2 * num_nodes D)) * net_lat init_params
                      + real_of_int (sint (2 * (num_ranks D - 1) - 2 * num_nodes D))
                        * (nccl_nvlink_lat ! 1 ! nat proto)))
                  * real_of_int (sint pipe_ops)
                  + real (unat sz)
                    / proto_penalty proto
                        (internode_bw init_params * real_of_int (sint (num_channels init_params))))"
    by (simp only: cost_ring [OF assms] init_penalty_ring_nz if_False)
  have b: "nccl_tuner_compute_cost init_params D ncclFuncAllReduce NCCL_ALGO_RING proto pipe_ops sz
            = Inr (ring_allreduce_cost_spec (nccl_base_lat ! 1 ! nat proto) (net_lat init_params)
                     (nccl_nvlink_lat ! 1 ! nat proto) (internode_bw init_params)
                     (sint (num_channels init_params)) proto
                     (sint (num_ranks D)) (sint (num_nodes D)) (sint pipe_ops) (unat sz))"
    if r: "1 \<le> sint (num_nodes D)" "sint (num_nodes D) \<le> sint (num_ranks D)"
          "sint (num_ranks D) \<le> 1073741824" "sint (num_nodes D) < 1073741824"
    unfolding a ring_allreduce_cost_spec_def Let_def
    by (simp only: ring_steps [OF r])
  show ?thesis
    using a b by simp
qed

theorem ring_allreduce_cost_witness:
  "(0::int) \<le> NCCL_PROTO_LL \<and> NCCL_PROTO_LL < NCCL_NUM_PROTOCOLS
   \<and> (1::int) \<le> sint (num_nodes \<lparr>num_ranks = 64, num_nodes = 8\<rparr>)
   \<and> sint (num_nodes \<lparr>num_ranks = 64, num_nodes = 8\<rparr>) \<le> sint (num_ranks \<lparr>num_ranks = 64, num_nodes = 8\<rparr>)
   \<and> sint (num_ranks \<lparr>num_ranks = 64, num_nodes = 8\<rparr>) \<le> 2 ^ 30
   \<and> sint (num_nodes \<lparr>num_ranks = 64, num_nodes = 8\<rparr>) < 2 ^ 30
   \<and> nccl_tuner_compute_cost init_params \<lparr>num_ranks = 64, num_nodes = 8\<rparr> ncclFuncAllReduce
        NCCL_ALGO_RING NCCL_PROTO_LL 1 1048576 = Inr 123.04140625
   \<and> ring_allreduce_cost_spec 6.6 3 0.6 53687.0912 16 NCCL_PROTO_LL 64 8 1 1048576 = 123.04140625"
  using ring_allreduce_cost [of NCCL_PROTO_LL "\<lparr>num_ranks = 64, num_nodes = 8\<rparr>" 1 1048576]
  by (simp add: ring_allreduce_cost_spec_def proto_penalty_def init_defs nccl_base_lat_def nccl_nvlink_lat_def)

text \<open>
  C6. For an all-reduce with the tree algorithm on a topology with \<open>1 \<le> nodeCount \<le>
  rankCount\<close>, the latency is the base latency plus twice
  \<open>(rankCount / nodeCount - 1) \<times> intraLat + \<lfloor>log\<^sub>2 nodeCount\<rfloor> \<times> interLat\<close>, and the
  bandwidth before the protocol penalty is the inter-node bandwidth times the channel
  count divided by 2, which is half of what the ring branch yields.
\<close>

theorem tree_allreduce_cost:
  assumes "0 \<le> proto" "proto < NCCL_NUM_PROTOCOLS"
    and "1 \<le> sint (num_nodes D)" "sint (num_nodes D) \<le> sint (num_ranks D)"
  shows "nccl_tuner_compute_cost init_params D ncclFuncAllReduce NCCL_ALGO_TREE proto pipe_ops sz
           = Inr (tree_allreduce_cost_spec (nccl_base_lat ! 0 ! nat proto) (net_lat init_params)
                    (nccl_nvlink_lat ! 0 ! nat proto) (internode_bw init_params)
                    (sint (num_channels init_params)) proto
                    (sint (num_ranks D)) (sint (num_nodes D)) (sint pipe_ops) (unat sz))
       \<and> cost_switch P D ncclFuncAllReduce NCCL_ALGO_TREE latency intraLat interLat
           = Inr (Some (latency + 2 * (real_of_int (sint (num_ranks D) div sint (num_nodes D) - 1) * intraLat
                                      + real_of_int \<lfloor>log 2 (real_of_int (sint (num_nodes D)))\<rfloor> * interLat),
                        internode_bw P * real_of_int (sint (num_channels P)) / 2))
       \<and> cost_switch P D ncclFuncAllReduce NCCL_ALGO_RING latency intraLat interLat
           = Inr (Some (latency + (real_of_int (sint (2 * num_nodes D)) * interLat
                                  + real_of_int (sint (2 * (num_ranks D - 1) - 2 * num_nodes D)) * intraLat),
                        internode_bw P * real_of_int (sint (num_channels P))))"
proof -
  have nodes: "0 < sint (num_nodes D)" using assms(3) by simp
  have a: "nccl_tuner_compute_cost init_params D ncclFuncAllReduce NCCL_ALGO_TREE proto pipe_ops sz
           = Inr (tree_allreduce_cost_spec (nccl_base_lat ! 0 ! nat proto) (net_lat init_params)
                    (nccl_nvlink_lat ! 0 ! nat proto) (internode_bw init_params)
                    (sint (num_channels init_params)) proto
                    (sint (num_ranks D)) (sint (num_nodes D)) (sint pipe_ops) (unat sz))"
    unfolding tree_allreduce_cost_spec_def Let_def
    by (simp only: cost_tree [OF assms(1,2) nodes] init_penalty_tree_nz if_False
          tree_quotient(1) [OF assms(3,4)])
  have b: "cost_switch P D ncclFuncAllReduce NCCL_ALGO_TREE latency intraLat interLat
           = Inr (Some (latency + 2 * (real_of_int (sint (num_ranks D) div sint (num_nodes D) - 1) * intraLat
                                      + real_of_int \<lfloor>log 2 (real_of_int (sint (num_nodes D)))\<rfloor> * interLat),
                        internode_bw P * real_of_int (sint (num_channels P)) / 2))"
    using floor_log2_bounds [OF nodes]
    by (simp add: cost_switch_def c_int_div_pos [OF nodes] log2i_nodes [OF nodes] sint64_small
          tree_quotient(1) [OF assms(3,4)])
  have c: "cost_switch P D ncclFuncAllReduce NCCL_ALGO_RING latency intraLat interLat
           = Inr (Some (latency + (real_of_int (sint (2 * num_nodes D)) * interLat
                                  + real_of_int (sint (2 * (num_ranks D - 1) - 2 * num_nodes D)) * intraLat),
                        internode_bw P * real_of_int (sint (num_channels P))))"
    by (simp add: cost_switch_def Let_def)
  show ?thesis using a b c by simp
qed

theorem tree_allreduce_cost_witness:
  "(0::int) \<le> NCCL_PROTO_LL \<and> NCCL_PROTO_LL < NCCL_NUM_PROTOCOLS
   \<and> (1::int) \<le> sint (num_nodes \<lparr>num_ranks = 64, num_nodes = 8\<rparr>)
   \<and> sint (num_nodes \<lparr>num_ranks = 64, num_nodes = 8\<rparr>) \<le> sint (num_ranks \<lparr>num_ranks = 64, num_nodes = 8\<rparr>)
   \<and> nccl_tuner_compute_cost init_params \<lparr>num_ranks = 64, num_nodes = 8\<rparr> ncclFuncAllReduce
        NCCL_ALGO_TREE NCCL_PROTO_LL 1 1048576 = Inr 38.0828125
   \<and> tree_allreduce_cost_spec 6.8 3 0.6 53687.0912 16 NCCL_PROTO_LL 64 8 1 1048576 = 38.0828125
   \<and> cost_switch init_params \<lparr>num_ranks = 64, num_nodes = 8\<rparr> ncclFuncAllReduce NCCL_ALGO_TREE 6.8 0.6 3
       = Inr (Some (33.2, 429496.7296))
   \<and> cost_switch init_params \<lparr>num_ranks = 64, num_nodes = 8\<rparr> ncclFuncAllReduce NCCL_ALGO_RING 6.8 0.6 3
       = Inr (Some (120.8, 858993.4592))"
proof -
  have l: "\<lfloor>log 2 (8::real)\<rfloor> = 3"
    using floor_log_nat_eq_if [of 2 3 8] by simp
  show ?thesis
    using tree_allreduce_cost [of NCCL_PROTO_LL "\<lparr>num_ranks = 64, num_nodes = 8\<rparr>" 1 1048576
        init_params "6.8" "0.6" 3]
    by (simp add: tree_allreduce_cost_spec_def proto_penalty_def init_defs nccl_base_lat_def
          nccl_nvlink_lat_def l)
qed

section \<open>Every cost is below the initial value of the search\<close>

lemma cost_form_bound:
  assumes "\<bar>lat\<bar> \<le> 2 ^ 40" "1 \<le> bw"
  shows "lat * real_of_int (sint (pipe::cint)) + real (unat (sz::size_t)) / bw < FLT_MAX"
proof -
  have "lat * real_of_int (sint pipe) \<le> \<bar>lat * real_of_int (sint pipe)\<bar>" by simp
  also have "\<dots> = \<bar>lat\<bar> * \<bar>real_of_int (sint pipe)\<bar>" by (simp add: abs_mult)
  also have "\<dots> \<le> 2 ^ 40 * 2147483648"
    using assms(1) abs_sint32 [of pipe] by (intro mult_mono) simp_all
  finally have a: "lat * real_of_int (sint pipe) \<le> 2 ^ 40 * 2147483648" .
  have "real (unat sz) / bw \<le> real (unat sz) / 1"
    using assms(2) by (intro divide_left_mono) simp_all
  then have b: "real (unat sz) / bw \<le> 18446744073709551616"
    using unat64_lt [of sz] by simp
  have "(2 ^ 40 * 2147483648 + 18446744073709551616 :: real) < FLT_MAX"
    by (simp add: FLT_MAX_def)
  with a b show ?thesis by linarith
qed

lemma ring_latency_bound:
  assumes "0 \<le> p" "p < 3" "\<bar>S\<bar> \<le> 2147483648" "\<bar>T\<bar> \<le> 2147483648"
  shows "\<bar>nccl_base_lat ! 1 ! nat p + (S * 3 + T * (nccl_nvlink_lat ! 1 ! nat p))\<bar> \<le> 2 ^ 40"
  using proto_cases [OF assms(1,2)] assms(3,4)
  by (elim disjE) (simp_all add: nccl_base_lat_def nccl_nvlink_lat_def)

lemma tree_latency_bound:
  assumes "0 \<le> p" "p < 3" "\<bar>Q\<bar> \<le> 2147483648" "0 \<le> k" "k \<le> 30"
  shows "\<bar>nccl_base_lat ! 0 ! nat p + 2 * (Q * (nccl_nvlink_lat ! 0 ! nat p) + k * 3)\<bar> \<le> 2 ^ 40"
  using proto_cases [OF assms(1,2)] assms(3,4,5)
  by (elim disjE) (simp_all add: nccl_base_lat_def nccl_nvlink_lat_def)

lemma nvls_tree_latency_bound:
  assumes "0 \<le> p" "p < 3" "0 \<le> k" "k \<le> 30"
  shows "\<bar>nccl_base_lat ! 5 ! nat p + (nccl_nvlink_lat ! 5 ! nat p + (2 * k) * 3)\<bar> \<le> 2 ^ 40"
  using proto_cases [OF assms(1,2)] assms(3,4)
  by (elim disjE) (simp_all add: nccl_base_lat_def nccl_nvlink_lat_def)

lemma penalty_ge_1: "4 \<le> bw \<Longrightarrow> 1 \<le> proto_penalty p bw"
  by (simp add: proto_penalty_def)

lemma floor_log2_real_bounds:
  assumes "0 < sint (n::cint)"
  shows "0 \<le> real_of_int \<lfloor>log 2 (real_of_int (sint n))\<rfloor>"
    and "real_of_int \<lfloor>log 2 (real_of_int (sint n))\<rfloor> \<le> 30"
  using floor_log2_bounds [OF assms] by simp_all

lemma cost_total_bounded:
  assumes "0 < sint (num_nodes D)" "0 \<le> a" "a < 6" "0 \<le> p" "p < 3"
  shows "\<exists>c. nccl_tuner_compute_cost init_params D f a p pipe sz = Inr c \<and> c < FLT_MAX"
proof -
  consider
      (none) "f \<noteq> ncclFuncAllReduce
              \<or> (a \<noteq> NCCL_ALGO_RING \<and> a \<noteq> NCCL_ALGO_TREE \<and> a \<noteq> NCCL_ALGO_NVLS_TREE)"
    | (ring) "f = ncclFuncAllReduce" "a = NCCL_ALGO_RING"
    | (tree) "f = ncclFuncAllReduce" "a = NCCL_ALGO_TREE"
    | (nvls) "f = ncclFuncAllReduce" "a = NCCL_ALGO_NVLS_TREE"
    by blast
  then show ?thesis
  proof cases
    case none
    have "(- 1 :: real) < FLT_MAX" by (simp add: FLT_MAX_def)
    then show ?thesis
      using cost_unmodelled [OF assms(2-5), of f init_params D pipe sz] none by simp
  next
    case ring
    have lat: "\<bar>nccl_base_lat ! 1 ! nat p
              + (real_of_int (sint (2 * num_nodes D)) * net_lat init_params
                 + real_of_int (sint (2 * (num_ranks D - 1) - 2 * num_nodes D)) * (nccl_nvlink_lat ! 1 ! nat p))\<bar>
              \<le> 2 ^ 40"
      unfolding init_net_lat
      by (rule ring_latency_bound [OF assms(4,5) abs_sint32 abs_sint32])
    have bw: "1 \<le> proto_penalty p (internode_bw init_params * real_of_int (sint (num_channels init_params)))"
      by (simp add: init_bw penalty_ge_1)
    show ?thesis
      using cost_form_bound [OF lat bw, of pipe sz] bw
      by (simp add: ring cost_ring [OF assms(4,5)])
  next
    case tree
    have lat: "\<bar>nccl_base_lat ! 0 ! nat p
                + 2 * (real_of_int (sint (word_of_int (sint (num_ranks D) sdiv sint (num_nodes D)) - 1 :: cint))
                         * (nccl_nvlink_lat ! 0 ! nat p)
                       + real_of_int \<lfloor>log 2 (real_of_int (sint (num_nodes D)))\<rfloor> * net_lat init_params)\<bar>
              \<le> 2 ^ 40"
      unfolding init_net_lat
      by (rule tree_latency_bound [OF assms(4,5) abs_sint32 floor_log2_real_bounds [OF assms(1)]])
    have bw: "1 \<le> proto_penalty p (internode_bw init_params * real_of_int (sint (num_channels init_params)) / 2)"
      by (simp add: init_half_bw penalty_ge_1)
    show ?thesis
      using cost_form_bound [OF lat bw, of pipe sz] bw
      by (simp add: tree cost_tree [OF assms(4,5,1)])
  next
    case nvls
    have lat: "\<bar>nccl_base_lat ! 5 ! nat p
                + (nccl_nvlink_lat ! 5 ! nat p
                   + real_of_int (2 * \<lfloor>log 2 (real_of_int (sint (num_nodes D)))\<rfloor>) * net_lat init_params)\<bar>
              \<le> 2 ^ 40"
      using nvls_tree_latency_bound [OF assms(4,5) floor_log2_real_bounds [OF assms(1)]]
      by (simp add: init_net_lat)
    have bw: "1 \<le> proto_penalty p (internode_bw init_params * real_of_int (sint (num_channels init_params)) / 2)"
      by (simp add: init_half_bw penalty_ge_1)
    show ?thesis
      using cost_form_bound [OF lat bw, of pipe sz] bw
      by (simp add: nvls cost_nvls_tree [OF assms(4,5,1)])
  qed
qed

section \<open>The recommendation is the first minimum\<close>

lemma init_context_params: "params (init_context nRanks nNodes) = init_params"
  by (simp add: init_context_def)

text \<open>
  The exact cost function meets the hypothesis that the next theorem puts on the cost
  function: for a context built by \<^verbatim>\<open>pluginInit\<close> with more than two nodes it returns,
  for every admissible pair, a number below \<^verbatim>\<open>FLT_MAX\<close>.
\<close>

lemma exact_costs_admitted:
  assumes "2 < sint (num_nodes (dims (init_context nRanks nNodes)))"
    and "x \<in> set (candidates collNetSupport nvlsSupport)"
  shows "nccl_tuner_compute_cost (params (init_context nRanks nNodes)) (dims (init_context nRanks nNodes))
             collType (fst x) (snd x) numPipeOps nBytes
           = Inr (pair_cost (init_context nRanks nNodes) collType nBytes numPipeOps x)
       \<and> pair_cost (init_context nRanks nNodes) collType nBytes numPipeOps x < FLT_MAX"
proof -
  let ?ctx = "init_context nRanks nNodes"
  have nodes: "0 < sint (num_nodes (dims ?ctx))" using assms(1) by simp
  from candidates_in_range [OF assms(2)]
  have r: "0 \<le> fst x" "fst x < 6" "0 \<le> snd x" "snd x < 3" by simp_all
  from cost_total_bounded [OF nodes r, of collType numPipeOps nBytes]
  obtain k where
    "nccl_tuner_compute_cost init_params (dims ?ctx) collType (fst x) (snd x) numPipeOps nBytes = Inr k"
    "k < FLT_MAX" by blast
  then show ?thesis by (simp add: pair_cost_def init_context_params)
qed

text \<open>
  C1. Take a context with more than two nodes, any collective, size, capability flags,
  pipeline depth and incoming outputs, and any cost function that returns, for every
  admissible pair \<open>x\<close>, a number \<open>c x\<close> below \<^verbatim>\<open>FLT_MAX\<close>: these are the values the search
  compares. Then the plugin returns success. If every admissible pair has a negative cost
  the outputs are as the caller passed them. Otherwise algorithm and protocol are those of
  a pair \<open>x\<close> of non-negative cost such that every admissible pair of non-negative cost
  before \<open>x\<close> in the order of the loops costs strictly more, and every one after \<open>x\<close> costs
  at least as much: the minimum, and among pairs of equal cost the one seen first. The
  channel count is not written.
\<close>

theorem selection_is_first_minimum:
  assumes "2 < sint (num_nodes (dims ctx))"
    and "\<forall>x\<in>set (candidates collNetSupport nvlsSupport).
           cost_fn (params ctx) (dims ctx) collType (fst x) (snd x) numPipeOps nBytes = Inr (c x)
           \<and> c x < FLT_MAX"
  shows "((\<forall>x\<in>set (candidates collNetSupport nvlsSupport). c x < 0)
          \<and> pluginGetCollInfo cost_fn ctx collType nBytes collNetSupport nvlsSupport numPipeOps out
              = Inr (ncclSuccess, out))
       \<or> (\<exists>ys x zs. candidates collNetSupport nvlsSupport = ys @ x # zs \<and> 0 \<le> c x
              \<and> (\<forall>y\<in>set ys. 0 \<le> c y \<longrightarrow> c x < c y)
              \<and> (\<forall>z\<in>set zs. 0 \<le> c z \<longrightarrow> c x \<le> c z)
              \<and> pluginGetCollInfo cost_fn ctx collType nBytes collNetSupport nvlsSupport numPipeOps out
                  = Inr (ncclSuccess, out\<lparr>algorithm := fst x, protocol := snd x\<rparr>))"
proof -
  let ?cs = "candidates collNetSupport nvlsSupport"
  have big: "\<not> sint (num_nodes (dims ctx)) \<le> 2" using assms(1) by simp
  have costs: "\<forall>x\<in>set ?cs. cost_fn (params ctx) (dims ctx) collType (fst x) (snd x) numPipeOps nBytes
                 = Inr (c x)"
    using assms(2) by blast
  have below: "c x < FLT_MAX" if "x \<in> set ?cs" for x
    using assms(2) that by blast
  have run: "pluginGetCollInfo cost_fn ctx collType nBytes collNetSupport nvlsSupport numPipeOps out
               = Inr (ncclSuccess, o')"
    if "try_pairs cost_fn ctx collType nBytes numPipeOps ?cs (out, FLT_MAX) = Inr (o', l')" for o' l'
    using that big by (simp add: pluginGetCollInfo_def algo_loop_fold)
  from try_pairs_min [where cost_fn = cost_fn and ctx = ctx and c = c and out = out and low = FLT_MAX,
      OF costs]
  show ?thesis
  proof
    assume h: "try_pairs cost_fn ctx collType nBytes numPipeOps ?cs (out, FLT_MAX) = Inr (out, FLT_MAX)
               \<and> (\<forall>x\<in>set ?cs. \<not> (0 \<le> c x \<and> c x < FLT_MAX))"
    have "\<forall>x\<in>set ?cs. c x < 0"
    proof
      fix x assume x: "x \<in> set ?cs"
      with h have "\<not> (0 \<le> c x \<and> c x < FLT_MAX)" by blast
      with below [OF x] show "c x < 0" by simp
    qed
    moreover have "pluginGetCollInfo cost_fn ctx collType nBytes collNetSupport nvlsSupport numPipeOps out
                   = Inr (ncclSuccess, out)"
      using h by (intro run) blast
    ultimately show ?thesis by blast
  next
    assume "\<exists>ys x zs. ?cs = ys @ x # zs \<and> 0 \<le> c x \<and> c x < FLT_MAX
             \<and> (\<forall>y\<in>set ys. 0 \<le> c y \<longrightarrow> c x < c y)
             \<and> (\<forall>z\<in>set zs. 0 \<le> c z \<longrightarrow> c x \<le> c z)
             \<and> try_pairs cost_fn ctx collType nBytes numPipeOps ?cs (out, FLT_MAX)
                 = Inr (out\<lparr>algorithm := fst x, protocol := snd x\<rparr>, c x)"
    then obtain ys x zs where h: "?cs = ys @ x # zs" "0 \<le> c x"
        "\<forall>y\<in>set ys. 0 \<le> c y \<longrightarrow> c x < c y" "\<forall>z\<in>set zs. 0 \<le> c z \<longrightarrow> c x \<le> c z"
        "try_pairs cost_fn ctx collType nBytes numPipeOps ?cs (out, FLT_MAX)
                 = Inr (out\<lparr>algorithm := fst x, protocol := snd x\<rparr>, c x)"
      by blast
    have "pluginGetCollInfo cost_fn ctx collType nBytes collNetSupport nvlsSupport numPipeOps out
                       = Inr (ncclSuccess, out\<lparr>algorithm := fst x, protocol := snd x\<rparr>)"
      by (rule run [OF h(5)])
    with h(1-4) show ?thesis by blast
  qed
qed

text \<open>
  Two instances. With the exact costs of the scenario of 64 ranks on 8 nodes, (tree, LL)
  is the cheapest of the six admissible pairs. With a cost function that gives every
  pair the same cost, all thirteen pairs of a call with both capabilities tie and the
  first of them, (tree, LL), is kept.
\<close>

theorem selection_is_first_minimum_witness:
  "2 < sint (num_nodes (dims (init_context 64 8)))
   \<and> candidates 0 0
       = [] @ (NCCL_ALGO_TREE, NCCL_PROTO_LL)
            # [(NCCL_ALGO_TREE, NCCL_PROTO_LL128), (NCCL_ALGO_TREE, NCCL_PROTO_SIMPLE),
               (NCCL_ALGO_RING, NCCL_PROTO_LL), (NCCL_ALGO_RING, NCCL_PROTO_LL128),
               (NCCL_ALGO_RING, NCCL_PROTO_SIMPLE)]
   \<and> pair_cost (init_context 64 8) ncclFuncAllReduce 1048576 1 (NCCL_ALGO_TREE, NCCL_PROTO_LL) = 38.0828125
   \<and> 38.0828125 \<le> pair_cost (init_context 64 8) ncclFuncAllReduce 1048576 1 (NCCL_ALGO_TREE, NCCL_PROTO_LL128)
   \<and> 38.0828125 \<le> pair_cost (init_context 64 8) ncclFuncAllReduce 1048576 1 (NCCL_ALGO_TREE, NCCL_PROTO_SIMPLE)
   \<and> 38.0828125 \<le> pair_cost (init_context 64 8) ncclFuncAllReduce 1048576 1 (NCCL_ALGO_RING, NCCL_PROTO_LL)
   \<and> 38.0828125 \<le> pair_cost (init_context 64 8) ncclFuncAllReduce 1048576 1 (NCCL_ALGO_RING, NCCL_PROTO_LL128)
   \<and> 38.0828125 \<le> pair_cost (init_context 64 8) ncclFuncAllReduce 1048576 1 (NCCL_ALGO_RING, NCCL_PROTO_SIMPLE)
   \<and> pluginGetCollInfo nccl_tuner_compute_cost (init_context 64 8) ncclFuncAllReduce 1048576 0 0 1
        \<lparr>algorithm = - 1, protocol = - 1, nChannels = 0\<rparr>
       = Inr (ncclSuccess, \<lparr>algorithm = - 1, protocol = - 1, nChannels = 0\<rparr>
                             \<lparr>algorithm := NCCL_ALGO_TREE, protocol := NCCL_PROTO_LL\<rparr>)
   \<and> hd (candidates 1 1) = (NCCL_ALGO_TREE, NCCL_PROTO_LL) \<and> length (candidates 1 1) = 13
   \<and> pluginGetCollInfo (\<lambda>P D func algo proto pipe_ops sz. Inr 1) (init_context 64 8)
        ncclFuncAllReduce 1048576 1 1 1 \<lparr>algorithm = - 1, protocol = - 1, nChannels = 0\<rparr>
       = Inr (ncclSuccess, \<lparr>algorithm = - 1, protocol = - 1, nChannels = 0\<rparr>
                             \<lparr>algorithm := NCCL_ALGO_TREE, protocol := NCCL_PROTO_LL\<rparr>)"
proof -
  have h: "2 < sint (num_nodes (dims (init_context 64 8)))"
    by (simp add: init_context_def)
  have costs:
    "pair_cost (init_context 64 8) ncclFuncAllReduce 1048576 1 (NCCL_ALGO_TREE, NCCL_PROTO_LL) = 38.0828125"
    "38.0828125 \<le> pair_cost (init_context 64 8) ncclFuncAllReduce 1048576 1 (NCCL_ALGO_TREE, NCCL_PROTO_LL128)"
    "38.0828125 \<le> pair_cost (init_context 64 8) ncclFuncAllReduce 1048576 1 (NCCL_ALGO_TREE, NCCL_PROTO_SIMPLE)"
    "38.0828125 \<le> pair_cost (init_context 64 8) ncclFuncAllReduce 1048576 1 (NCCL_ALGO_RING, NCCL_PROTO_LL)"
    "38.0828125 \<le> pair_cost (init_context 64 8) ncclFuncAllReduce 1048576 1 (NCCL_ALGO_RING, NCCL_PROTO_LL128)"
    "38.0828125 \<le> pair_cost (init_context 64 8) ncclFuncAllReduce 1048576 1 (NCCL_ALGO_RING, NCCL_PROTO_SIMPLE)"
    by (simp_all add: pair_cost_def cost_defs init_defs log2i_def log2i_loop.simps)
  have cs: "candidates 0 0
       = [] @ (NCCL_ALGO_TREE, NCCL_PROTO_LL)
            # [(NCCL_ALGO_TREE, NCCL_PROTO_LL128), (NCCL_ALGO_TREE, NCCL_PROTO_SIMPLE),
               (NCCL_ALGO_RING, NCCL_PROTO_LL), (NCCL_ALGO_RING, NCCL_PROTO_LL128),
               (NCCL_ALGO_RING, NCCL_PROTO_SIMPLE)]"
    by (simp add: candidates_eq)
  have exact: "\<forall>x\<in>set (candidates 0 0).
           nccl_tuner_compute_cost (params (init_context 64 8)) (dims (init_context 64 8))
               ncclFuncAllReduce (fst x) (snd x) 1 1048576
             = Inr (pair_cost (init_context 64 8) ncclFuncAllReduce 1048576 1 x)
           \<and> pair_cost (init_context 64 8) ncclFuncAllReduce 1048576 1 x < FLT_MAX"
    using exact_costs_admitted [OF h] by blast
  have sel: "pluginGetCollInfo nccl_tuner_compute_cost (init_context 64 8) ncclFuncAllReduce 1048576 0 0 1
        \<lparr>algorithm = - 1, protocol = - 1, nChannels = 0\<rparr>
       = Inr (ncclSuccess, \<lparr>algorithm = - 1, protocol = - 1, nChannels = 0\<rparr>
                             \<lparr>algorithm := NCCL_ALGO_TREE, protocol := NCCL_PROTO_LL\<rparr>)"
    using selection_is_first_minimum [where cost_fn = nccl_tuner_compute_cost
        and ctx = "init_context 64 8" and collNetSupport = 0 and nvlsSupport = 0
        and collType = ncclFuncAllReduce and nBytes = 1048576 and numPipeOps = 1
        and c = "pair_cost (init_context 64 8) ncclFuncAllReduce 1048576 1"
        and out = "\<lparr>algorithm = - 1, protocol = - 1, nChannels = 0\<rparr>", OF h exact]
      scenario_64_8
    by simp
  have c11: "hd (candidates 1 1) = (NCCL_ALGO_TREE, NCCL_PROTO_LL)" "length (candidates 1 1) = 13"
    by (simp_all add: candidates_eq)
  have equal: "\<forall>x\<in>set (candidates 1 1).
           (\<lambda>P D func algo proto pipe_ops sz. Inr 1 :: fault + real) (params (init_context 64 8))
               (dims (init_context 64 8)) ncclFuncAllReduce (fst x) (snd x) 1 1048576
             = Inr ((\<lambda>x. 1) x)
           \<and> (\<lambda>x. 1 :: real) x < FLT_MAX"
    by (simp add: FLT_MAX_def)
  have tie: "pluginGetCollInfo (\<lambda>P D func algo proto pipe_ops sz. Inr 1) (init_context 64 8)
        ncclFuncAllReduce 1048576 1 1 1 \<lparr>algorithm = - 1, protocol = - 1, nChannels = 0\<rparr>
       = Inr (ncclSuccess, \<lparr>algorithm = - 1, protocol = - 1, nChannels = 0\<rparr>
                             \<lparr>algorithm := NCCL_ALGO_TREE, protocol := NCCL_PROTO_LL\<rparr>)"
    using selection_is_first_minimum [where cost_fn = "\<lambda>P D func algo proto pipe_ops sz. Inr 1"
        and ctx = "init_context 64 8" and collNetSupport = 1 and nvlsSupport = 1
        and collType = ncclFuncAllReduce and nBytes = 1048576 and numPipeOps = 1
        and c = "\<lambda>x. 1"
        and out = "\<lparr>algorithm = - 1, protocol = - 1, nChannels = 0\<rparr>", OF h equal]
    by (simp add: pluginGetCollInfo_def algo_loop_fold candidates_eq try_pair_def FLT_MAX_def
          init_context_def)
  show ?thesis
    using h costs cs sel c11 tie by blast
qed

end
